theory Spec2Isabelle
  imports Complex_Main "HOL-Library.Char_ord" "HOL-Library.List_Lexorder"
begin

section \<open>Numbers, strings and errors of the Python source\<close>

text \<open>
  The source computes with Python numbers. Integers are unbounded. In \<open>analyzer.py\<close>
  floats are modelled as exact reals, so a formula such as \<open>x * 0.4\<close> denotes the exact
  product; in \<open>route_search.py\<close>, where the last bit of a sum decides a result, the
  float operations are modelled as operations on doubles (\<open>fl\<close> below). A Python
  \<open>str\<close> is modelled as a \<open>string\<close> holding its UTF-8 bytes; the character classes
  \<open>\d\<close> and \<open>\s\<close> and \<open>str.lower\<close> are modelled on their ASCII part.

  An exception of the source is a value \<open>Inl e\<close> of the result.
\<close>

datatype py_error = ZeroDivisionError | ValueError | KeyError

text \<open>
  \<open>round(x)\<close> of Python 3 rounds to the nearest integer, a tie going to the even
  neighbour; \<open>round(x, n)\<close> does the same at the \<open>n\<close>-th decimal.
\<close>

definition py_round :: "real \<Rightarrow> int" where
  "py_round x =
     (let f = \<lfloor>x\<rfloor>; r = x - of_int f
      in if r < 1 / 2 then f
         else if 1 / 2 < r then f + 1
         else if even f then f else f + 1)"

definition py_round_ndigits :: "real \<Rightarrow> nat \<Rightarrow> real" where
  "py_round_ndigits x n = of_int (py_round (x * 10 ^ n)) / 10 ^ n"

text \<open>
  A Python float is an IEEE 754 double. \<open>fl x\<close> is the double nearest to the real
  \<open>x\<close>: 53 significant bits, a tie going to the even significand, and below
  \<open>2 powr - 1022\<close> the fixed spacing of the subnormal numbers. Each float operation of the
  source returns the rounded exact result, \<open>fl (x + y)\<close> for \<open>x + y\<close>. Results beyond
  the largest double, where the source gets \<open>inf\<close>, are outside this model; the scores
  and distances of the program are far below it.
\<close>

definition fl :: "real \<Rightarrow> real" where
  "fl x =
     (if x = 0 then 0
      else
        let e = max \<lfloor>log 2 \<bar>x\<bar>\<rfloor> (- 1022);
            ulp = 2 powr of_int (e - 52)
        in of_int (py_round (x / ulp)) * ulp)"

text \<open>\<open>int(x)\<close> of a float truncates towards zero.\<close>

definition py_int :: "real \<Rightarrow> int" where
  "py_int x = (if 0 \<le> x then \<lfloor>x\<rfloor> else \<lceil>x\<rceil>)"

definition lower_char :: "char \<Rightarrow> char" where
  "lower_char c =
     (if CHR ''A'' \<le> c \<and> c \<le> CHR ''Z'' then char_of (of_char c + (32::nat)) else c)"

definition py_lower :: "string \<Rightarrow> string" where
  "py_lower s = map lower_char s"

fun starts_with :: "string \<Rightarrow> string \<Rightarrow> bool" where
  "starts_with s [] = True"
| "starts_with [] (p # ps) = False"
| "starts_with (c # cs) (p # ps) = (c = p \<and> starts_with cs ps)"

text \<open>\<open>needle in haystack\<close> on strings: the needle occurs as a contiguous piece.\<close>

fun py_in :: "string \<Rightarrow> string \<Rightarrow> bool" where
  "py_in needle [] = (needle = [])"
| "py_in needle (c # cs) = (starts_with (c # cs) needle \<or> py_in needle cs)"


section \<open>The zones database\<close>

text \<open>
  One entry of \<open>data/zones.json\<close>. The fields are those the scoring and corridor code
  computes with; the descriptive fields that are only copied into the reply (levels,
  notes, street lists) are left out. The two optional recurring fees are \<open>None\<close> when
  the key is absent from the \<open>hidden_costs\<close> dictionary.
\<close>

record market_data =
  avg_price_per_sqm :: real
  price_range :: string
  appreciation_5yr :: real
  rental_yield :: real
  days_to_sell_avg :: real

record hidden_costs =
  omo_onile :: real
  land_survey :: real
  flood_insurance :: real
  generator_diesel_monthly :: real
  borehole_maintenance :: "real option"
  estate_service_charge :: "real option"

record zone =
  zone_location :: string
  coord_lat :: real
  coord_lng :: real
  flood_risk_score :: real
  security_score :: real
  infrastructure_score :: real
  zone_market_data :: market_data
  zone_hidden_costs :: hidden_costs

text \<open>
  \<open>zones_data\<close> is a dictionary read from JSON; the list keeps its iteration order
  and \<open>map_of\<close> is the lookup by key.
\<close>

type_synonym zones = "(string \<times> zone) list"

definition get_available_locations :: "zones \<Rightarrow> string list" where
  "get_available_locations zones_data = sort (map fst zones_data)"

fun first_key :: "(string \<Rightarrow> bool) \<Rightarrow> string list \<Rightarrow> string option" where
  "first_key P [] = None"
| "first_key P (k # ks) = (if P k then Some k else first_key P ks)"

definition normalize_location :: "zones \<Rightarrow> string \<Rightarrow> string" where
  "normalize_location zones_data location =
     (if map_of zones_data location \<noteq> None then location
      else
        let location_lower = py_lower location; keys = map fst zones_data
        in case first_key (\<lambda>key. py_lower key = location_lower) keys of
             Some key \<Rightarrow> key
           | None \<Rightarrow>
               (case first_key (\<lambda>key. py_in location_lower (py_lower key)) keys of
                  Some key \<Rightarrow> key
                | None \<Rightarrow> location))"


section \<open>analyzer.py: the price verdict\<close>

text \<open>
  \<open>re.search(r'N(\d+)M\s*-\s*N(\d+)M', price_range)\<close>, where \<open>N\<close> stands here for the
  naira sign, the code point U+20A6 (three bytes in UTF-8). After each greedy group the
  next pattern character is outside the group's class, so giving back characters never
  yields a match: at a start position the match, if any, is the one that takes every
  digit and every blank. The search returns the match at the leftmost start position
  that has one.
\<close>

definition naira :: string where
  "naira = [CHR 0xE2, CHR 0x82, CHR 0xA6]"

definition is_digit :: "char \<Rightarrow> bool" where
  "is_digit c = (CHR ''0'' \<le> c \<and> c \<le> CHR ''9'')"

definition is_space :: "char \<Rightarrow> bool" where
  "is_space c = (c = CHR '' '' \<or> (CHR 0x09 \<le> c \<and> c \<le> CHR 0x0D) \<or> (CHR 0x1C \<le> c \<and> c \<le> CHR 0x1F))"

fun strip_prefix :: "string \<Rightarrow> string \<Rightarrow> string option" where
  "strip_prefix [] s = Some s"
| "strip_prefix (p # ps) [] = None"
| "strip_prefix (p # ps) (c # cs) = (if p = c then strip_prefix ps cs else None)"

definition digits1 :: "string \<Rightarrow> (string \<times> string) option" where
  "digits1 s =
     (let ds = takeWhile is_digit s
      in if ds = [] then None else Some (ds, dropWhile is_digit s))"

definition match_here :: "string \<Rightarrow> (string \<times> string) option" where
  "match_here s =
     (case strip_prefix naira s of None \<Rightarrow> None | Some r1 \<Rightarrow>
      case digits1 r1 of None \<Rightarrow> None | Some (g1, r2) \<Rightarrow>
      case strip_prefix ''M'' r2 of None \<Rightarrow> None | Some r3 \<Rightarrow>
      case strip_prefix ''-'' (dropWhile is_space r3) of None \<Rightarrow> None | Some r4 \<Rightarrow>
      case strip_prefix naira (dropWhile is_space r4) of None \<Rightarrow> None | Some r5 \<Rightarrow>
      case digits1 r5 of None \<Rightarrow> None | Some (g2, r6) \<Rightarrow>
      case strip_prefix ''M'' r6 of None \<Rightarrow> None | Some r7 \<Rightarrow> Some (g1, g2))"

fun re_search :: "string \<Rightarrow> (string \<times> string) option" where
  "re_search [] = match_here []"
| "re_search (c # cs) =
     (case match_here (c # cs) of Some m \<Rightarrow> Some m | None \<Rightarrow> re_search cs)"

text \<open>\<open>float(group)\<close> of a string of decimal digits.\<close>

definition digit_value :: "char \<Rightarrow> nat" where
  "digit_value c = of_char c - of_char CHR ''0''"

definition py_float :: "string \<Rightarrow> real" where
  "py_float ds = real (foldl (\<lambda>acc c. 10 * acc + digit_value c) 0 ds)"

datatype price_status = UNDERPRICED | FAIR | ELEVATED | OVERPRICED | UNKNOWN

record price_verdict =
  status :: price_status
  market_range :: string
  offered_price :: real
  market_median :: "real option"

definition evaluate_price :: "zones \<Rightarrow> real \<Rightarrow> real \<Rightarrow> string \<Rightarrow> py_error + price_verdict" where
  "evaluate_price zones_data offered avg_price_sqm location =
     (case map_of zones_data location of
        None \<Rightarrow> Inl KeyError
      | Some zone \<Rightarrow>
          let range = price_range (zone_market_data zone)
          in case re_search range of
               Some (g1, g2) \<Rightarrow>
                 let low_range = py_float g1 * 1000000;
                     high_range = py_float g2 * 1000000;
                     mid_range = (low_range + high_range) / 2;
                     st = (if offered < low_range * 0.9 then UNDERPRICED
                           else if offered \<le> mid_range then FAIR
                           else if offered \<le> high_range then ELEVATED
                           else OVERPRICED)
                 in Inr \<lparr>status = st, market_range = range, offered_price = offered,
                         market_median = Some mid_range\<rparr>
             | None \<Rightarrow>
                 Inr \<lparr>status = UNKNOWN, market_range = range, offered_price = offered,
                       market_median = None\<rparr>)"


section \<open>analyzer.py: the smart score and the risk tier\<close>

datatype risk_level = LOW | MODERATE | HIGH

record analysis =
  an_location :: string
  an_property_type :: string
  an_price_offered :: real
  an_smart_score :: real
  an_overall_risk :: risk_level
  an_price_analysis :: price_verdict
  an_total_hidden :: real

datatype analysis_reply = LocationNotFound "string list" | Analysis analysis

definition calculate_total_hidden :: "hidden_costs \<Rightarrow> real" where
  "calculate_total_hidden h = omo_onile h + land_survey h + flood_insurance h"

definition analyze_property :: "zones \<Rightarrow> string \<Rightarrow> real \<Rightarrow> string \<Rightarrow> py_error + analysis_reply" where
  "analyze_property zones_data location price property_type =
     (let location_key = normalize_location zones_data location
      in case map_of zones_data location_key of
           None \<Rightarrow> Inr (LocationNotFound (get_available_locations zones_data))
         | Some zone \<Rightarrow>
             let flood_risk = flood_risk_score zone;
                 security = security_score zone;
                 infrastructure = infrastructure_score zone;
                 flood_safety = 100 - flood_risk;
                 smart_score = flood_safety * 0.4 + security * 0.3 + infrastructure * 0.3;
                 avg_price_sqm = avg_price_per_sqm (zone_market_data zone)
             in case evaluate_price zones_data price avg_price_sqm location_key of
                  Inl e \<Rightarrow> Inl e
                | Inr verdict \<Rightarrow>
                    let overall_risk = (if smart_score \<ge> 80 then LOW
                                        else if smart_score \<ge> 65 then MODERATE
                                        else HIGH)
                    in Inr (Analysis
                         \<lparr>an_location = zone_location zone,
                          an_property_type = property_type,
                          an_price_offered = price,
                          an_smart_score = py_round_ndigits smart_score 1,
                          an_overall_risk = overall_risk,
                          an_price_analysis = verdict,
                          an_total_hidden = calculate_total_hidden (zone_hidden_costs zone)\<rparr>))"


section \<open>analyzer.py: the return on investment\<close>

datatype roi_verdict = ROI_EXCELLENT | ROI_GOOD | ROI_FAIR | ROI_POOR

datatype liquidity = High | Moderate | Low

text \<open>
  The reply of \<open>calculate_roi\<close>. The source renders most numbers as text
  (\<open>f"{x:,.0f}"\<close>); the record keeps the numbers that are rendered.
\<close>

record roi =
  roi_location :: string
  roi_investment_price :: real
  roi_holding_period :: int
  roi_annual_rental_income :: real
  roi_total_rental_income :: real
  roi_capital_gain :: real
  roi_appreciation_total :: real
  roi_gross_return :: real
  roi_one_time_costs :: real
  roi_generator_fuel :: real
  roi_other_annual :: real
  roi_annual_costs :: real
  roi_total_hidden_costs :: real
  roi_net_return :: real
  roi_percentage :: real
  roi_verdict :: roi_verdict
  roi_annual_roi :: real
  roi_liquidity :: liquidity

datatype roi_reply = RoiLocationNotFound "string list" | Roi roi

text \<open>
  \<open>a / b\<close> on Python numbers raises \<open>ZeroDivisionError\<close> for a zero divisor. The
  source divides twice: the net return by the price, and, when it builds the reply,
  the percentage by the holding period.
\<close>

definition py_truediv :: "real \<Rightarrow> real \<Rightarrow> py_error + real" where
  "py_truediv a b = (if b = 0 then Inl ZeroDivisionError else Inr (a / b))"

definition calculate_roi :: "zones \<Rightarrow> real \<Rightarrow> string \<Rightarrow> int \<Rightarrow> py_error + roi_reply" where
  "calculate_roi zones_data price location holding_period =
     (let location_key = normalize_location zones_data location
      in case map_of zones_data location_key of
           None \<Rightarrow> Inr (RoiLocationNotFound (get_available_locations zones_data))
         | Some zone \<Rightarrow>
             let rental_yield = rental_yield (zone_market_data zone);
                 appreciation_rate = appreciation_5yr (zone_market_data zone);
                 annual_rental_income = price * rental_yield;
                 total_rental_income = annual_rental_income * of_int holding_period;
                 appreciation_total = appreciation_rate * of_int holding_period;
                 capital_gain = price * appreciation_total;
                 hidden = zone_hidden_costs zone;
                 one_time_costs = omo_onile hidden + land_survey hidden;
                 monthly_costs = generator_diesel_monthly hidden;
                 annual_costs0 = monthly_costs * 12 + flood_insurance hidden;
                 annual_costs1 = (case borehole_maintenance hidden of
                                    Some b \<Rightarrow> annual_costs0 + b | None \<Rightarrow> annual_costs0);
                 annual_costs = (case estate_service_charge hidden of
                                   Some c \<Rightarrow> annual_costs1 + c | None \<Rightarrow> annual_costs1);
                 total_recurring_costs = annual_costs * of_int holding_period;
                 total_hidden_costs = one_time_costs + total_recurring_costs;
                 gross_return = total_rental_income + capital_gain;
                 net_return = gross_return - total_hidden_costs
             in case py_truediv net_return price of
                  Inl e \<Rightarrow> Inl e
                | Inr q \<Rightarrow>
                    let roi_percentage = q * 100;
                        verdict = (if roi_percentage \<ge> 80 then ROI_EXCELLENT
                                   else if roi_percentage \<ge> 50 then ROI_GOOD
                                   else if roi_percentage \<ge> 30 then ROI_FAIR
                                   else ROI_POOR)
                    in case py_truediv roi_percentage (of_int holding_period) of
                         Inl e \<Rightarrow> Inl e
                       | Inr annual_roi \<Rightarrow>
                           Inr (Roi
                             \<lparr>roi_location = zone_location zone,
                              roi_investment_price = price,
                              roi_holding_period = holding_period,
                              roi_annual_rental_income = annual_rental_income,
                              roi_total_rental_income = total_rental_income,
                              roi_capital_gain = capital_gain,
                              roi_appreciation_total = appreciation_total,
                              roi_gross_return = gross_return,
                              roi_one_time_costs = one_time_costs,
                              roi_generator_fuel = monthly_costs * 12,
                              roi_other_annual =
                                annual_costs - monthly_costs * 12 - flood_insurance hidden,
                              roi_annual_costs = annual_costs,
                              roi_total_hidden_costs = total_hidden_costs,
                              roi_net_return = net_return,
                              roi_percentage = roi_percentage,
                              roi_verdict = verdict,
                              roi_annual_roi = annual_roi,
                              roi_liquidity =
                                (let d = days_to_sell_avg (zone_market_data zone)
                                 in if d < 90 then High
                                    else if d < 150 then Moderate else Low)\<rparr>))"


section \<open>route_search.py: distances and the corridor test\<close>

text \<open>
  \<open>math.atan2(y, x)\<close>, and \<open>math.radians\<close>. \<open>math.sqrt\<close> raises \<open>ValueError\<close> on
  a negative argument, which the distance function below keeps as an error.
\<close>

definition atan2 :: "real \<Rightarrow> real \<Rightarrow> real" where
  "atan2 y x =
     (if 0 < x then arctan (y / x)
      else if x < 0 then (if 0 \<le> y then arctan (y / x) + pi else arctan (y / x) - pi)
      else if 0 < y then pi / 2
      else if y < 0 then - (pi / 2)
      else 0)"

definition radians :: "real \<Rightarrow> real" where
  "radians x = x * pi / 180"

definition py_sqrt :: "real \<Rightarrow> py_error + real" where
  "py_sqrt x = (if x < 0 then Inl ValueError else Inr (sqrt x))"

text \<open>The haversine term \<open>a\<close> and the angle \<open>c\<close> of \<open>_calculate_distance\<close>.\<close>

definition haversine_a :: "real \<times> real \<Rightarrow> real \<times> real \<Rightarrow> real" where
  "haversine_a coord1 coord2 =
     (let lat1 = radians (fst coord1); lng1 = radians (snd coord1);
          lat2 = radians (fst coord2); lng2 = radians (snd coord2);
          dlat = lat2 - lat1;
          dlng = lng2 - lng1
      in (sin (dlat / 2))\<^sup>2 + cos lat1 * cos lat2 * (sin (dlng / 2))\<^sup>2)"

definition haversine_c :: "real \<times> real \<Rightarrow> real \<times> real \<Rightarrow> py_error + real" where
  "haversine_c coord1 coord2 =
     (let a = haversine_a coord1 coord2
      in case py_sqrt a of
           Inl e \<Rightarrow> Inl e
         | Inr sa \<Rightarrow>
             (case py_sqrt (1 - a) of
                Inl e \<Rightarrow> Inl e
              | Inr sb \<Rightarrow> Inr (2 * atan2 sa sb)))"

text \<open>
  \<open>round(R * c, 2)\<close> returns a float: the double nearest to the value with two
  decimals. The functions of the \<open>math\<close> module and the arithmetic up to \<open>R * c\<close> are
  taken as the exact real functions, since the language does not fix the last bit of
  \<open>sin\<close>, \<open>cos\<close> and \<open>atan2\<close>; the value rounded to two decimals does not depend on
  that bit unless \<open>R * c\<close> lies within it of a rounding boundary. For two points that
  are nearly antipodal the float \<open>a\<close> can exceed 1 by a rounding error, and
  \<open>sqrt(1 - a)\<close> then raises \<open>ValueError\<close>; the exact \<open>a\<close> is at most 1 for latitudes
  between \<open>-90\<close> and \<open>90\<close>, so that error is outside this model, and the statement on
  the corridor test takes the three distances as defined.
\<close>

definition calculate_distance :: "real \<times> real \<Rightarrow> real \<times> real \<Rightarrow> py_error + real" where
  "calculate_distance coord1 coord2 =
     (case haversine_c coord1 coord2 of
        Inl e \<Rightarrow> Inl e
      | Inr c \<Rightarrow> Inr (fl (py_round_ndigits (6371 * c) 2)))"

text \<open>
  The distances are floats, so the sum and the difference of \<open>_is_along_route\<close> are
  float operations; \<open>abs\<close> and the comparison are exact.
\<close>

definition is_along_route ::
  "real \<times> real \<Rightarrow> real \<times> real \<Rightarrow> real \<times> real \<Rightarrow> real \<Rightarrow> py_error + bool" where
  "is_along_route origin destination point corridor_width_km =
     (case calculate_distance origin point of
        Inl e \<Rightarrow> Inl e
      | Inr dist_origin_point \<Rightarrow>
          (case calculate_distance point destination of
             Inl e \<Rightarrow> Inl e
           | Inr dist_point_dest \<Rightarrow>
               (case calculate_distance origin destination of
                  Inl e \<Rightarrow> Inl e
                | Inr dist_origin_dest \<Rightarrow>
                    let total_via_point = fl (dist_origin_point + dist_point_dest);
                        detour = \<bar>fl (total_via_point - dist_origin_dest)\<bar>
                    in Inr (detour \<le> corridor_width_km))))"

text \<open>
  The weighted sum of \<open>_calculate_smart_score\<close> in float arithmetic: the literals are
  the doubles of 0.35 and 0.30, each product and each sum is rounded, the sums from left
  to right, and \<open>round\<close> takes the float to the nearest integer.
\<close>

definition calculate_smart_score :: "zone \<Rightarrow> int" where
  "calculate_smart_score zone_data =
     (let security = security_score zone_data;
          infrastructure = infrastructure_score zone_data;
          flood_risk = fl (100 - flood_risk_score zone_data);
          smart_score = fl (fl (fl (security * fl 0.35) + fl (infrastructure * fl 0.35))
                            + fl (flood_risk * fl 0.30))
      in py_round smart_score)"


section \<open>route_search.py: the corridor search\<close>

text \<open>
  The Google Maps client is outside the program: the geocoder and the distance matrix
  are parameters. \<open>geocode\<close> is the \<open>try\<close> block of \<open>_get_coordinates\<close> (no result
  and a failed call both give \<open>None\<close>); \<open>route_details\<close> is \<open>_get_route_details\<close>.
\<close>

datatype route_info = RouteInfoOK real real | RouteInfoNotFound | RouteInfoError string

record corridor_property =
  cp_zone_name :: string
  cp_location :: string
  cp_distance_from_origin_km :: real
  cp_coordinates :: "real \<times> real"
  cp_price_per_sqm :: real
  cp_price_range :: string
  cp_security_score :: real
  cp_flood_risk_score :: real
  cp_infrastructure_score :: real
  cp_rental_yield :: real
  cp_appreciation_5yr :: real
  cp_smart_score :: int

record corridor_result =
  route_origin :: string
  route_destination :: string
  route_distance_km :: real
  route_duration_minutes :: real
  param_corridor_width_km :: real
  param_max_price_per_sqm :: "int option"
  param_min_security_score :: int
  param_max_flood_risk :: int
  properties_found :: nat
  properties :: "corridor_property list"

datatype corridor_reply =
  CoordinatesNotFound | RouteFailed route_info | CorridorOK corridor_result

definition get_coordinates ::
  "(string \<Rightarrow> (real \<times> real) option) \<Rightarrow> string \<Rightarrow> zones \<Rightarrow> (real \<times> real) option" where
  "get_coordinates geocode location zones =
     (case map_of zones location of
        Some z \<Rightarrow> Some (coord_lat z, coord_lng z)
      | None \<Rightarrow> geocode (location @ '', Nigeria''))"

text \<open>
  \<open>max_price_per_sqm and price > max_price_per_sqm\<close>: the ceiling is tested for truth
  first, and \<open>None\<close> and \<open>0\<close> are both false.
\<close>

definition over_price_ceiling :: "int option \<Rightarrow> real \<Rightarrow> bool" where
  "over_price_ceiling max_price_per_sqm price =
     (case max_price_per_sqm of
        None \<Rightarrow> False
      | Some m \<Rightarrow> m \<noteq> 0 \<and> price > of_int m)"

text \<open>The dictionary that the loop appends for a zone that matches.\<close>

definition corridor_entry :: "string \<Rightarrow> zone \<Rightarrow> real \<Rightarrow> corridor_property" where
  "corridor_entry zone_name zone_data from_origin =
     \<lparr>cp_zone_name = zone_name,
      cp_location = zone_location zone_data,
      cp_distance_from_origin_km = from_origin,
      cp_coordinates = (coord_lat zone_data, coord_lng zone_data),
      cp_price_per_sqm = avg_price_per_sqm (zone_market_data zone_data),
      cp_price_range = price_range (zone_market_data zone_data),
      cp_security_score = security_score zone_data,
      cp_flood_risk_score = flood_risk_score zone_data,
      cp_infrastructure_score = infrastructure_score zone_data,
      cp_rental_yield = rental_yield (zone_market_data zone_data),
      cp_appreciation_5yr = appreciation_5yr (zone_market_data zone_data),
      cp_smart_score = calculate_smart_score zone_data\<rparr>"

text \<open>
  The loop over \<open>zones.items()\<close>. Each \<open>continue\<close> goes on with the rest of the
  dictionary; an exception in a distance ends the loop. The matches come out in the
  order of the iteration, as the source appends them.
\<close>

fun corridor_loop ::
  "real \<times> real \<Rightarrow> real \<times> real \<Rightarrow> real \<Rightarrow> int option \<Rightarrow> int \<Rightarrow> int \<Rightarrow> zones
     \<Rightarrow> py_error + corridor_property list" where
  "corridor_loop origin_coords dest_coords corridor_width_km max_price_per_sqm
       min_security_score max_flood_risk [] = Inr []"
| "corridor_loop origin_coords dest_coords corridor_width_km max_price_per_sqm
       min_security_score max_flood_risk ((zone_name, zone_data) # rest) =
     (let zone_coords = (coord_lat zone_data, coord_lng zone_data);
          continue = corridor_loop origin_coords dest_coords corridor_width_km
                       max_price_per_sqm min_security_score max_flood_risk rest
      in case is_along_route origin_coords dest_coords zone_coords corridor_width_km of
           Inl e \<Rightarrow> Inl e
         | Inr along \<Rightarrow>
             if along then
               let security = security_score zone_data;
                   flood_risk = flood_risk_score zone_data;
                   price = avg_price_per_sqm (zone_market_data zone_data)
               in if over_price_ceiling max_price_per_sqm price then continue
                  else if security < of_int min_security_score then continue
                  else if flood_risk > of_int max_flood_risk then continue
                  else
                    (case calculate_distance origin_coords zone_coords of
                       Inl e \<Rightarrow> Inl e
                     | Inr from_origin \<Rightarrow>
                         (case continue of
                            Inl e \<Rightarrow> Inl e
                          | Inr found \<Rightarrow>
                              Inr (corridor_entry zone_name zone_data from_origin # found)))
             else continue)"

text \<open>\<open>list.sort(key=...)\<close> is stable, as \<open>sort_key\<close> is.\<close>

definition search_route_corridor ::
  "(string \<Rightarrow> (real \<times> real) option) \<Rightarrow> (real \<times> real \<Rightarrow> real \<times> real \<Rightarrow> route_info) \<Rightarrow> zones
     \<Rightarrow> string \<Rightarrow> string \<Rightarrow> real \<Rightarrow> int option \<Rightarrow> int \<Rightarrow> int \<Rightarrow> py_error + corridor_reply" where
  "search_route_corridor geocode route_details zones origin destination corridor_width_km
       max_price_per_sqm min_security_score max_flood_risk =
     (case (get_coordinates geocode origin zones, get_coordinates geocode destination zones) of
        (Some origin_coords, Some dest_coords) \<Rightarrow>
          (case route_details origin_coords dest_coords of
             RouteInfoOK distance_km duration_minutes \<Rightarrow>
               (case corridor_loop origin_coords dest_coords corridor_width_km
                       max_price_per_sqm min_security_score max_flood_risk zones of
                  Inl e \<Rightarrow> Inl e
                | Inr found \<Rightarrow>
                    let corridor_properties = sort_key cp_distance_from_origin_km found
                    in Inr (CorridorOK
                         \<lparr>route_origin = origin,
                          route_destination = destination,
                          route_distance_km = distance_km,
                          route_duration_minutes = duration_minutes,
                          param_corridor_width_km = corridor_width_km,
                          param_max_price_per_sqm = max_price_per_sqm,
                          param_min_security_score = min_security_score,
                          param_max_flood_risk = max_flood_risk,
                          properties_found = length corridor_properties,
                          properties = corridor_properties\<rparr>))
           | route_info \<Rightarrow> Inr (RouteFailed route_info))
      | _ \<Rightarrow> Inr CoordinatesNotFound)"

text \<open>\<open>sqm_estimate.get(bedrooms, 120)\<close> and the budget search that delegates.\<close>

definition sqm_estimate :: "int \<Rightarrow> int" where
  "sqm_estimate bedrooms =
     (if bedrooms = 2 then 80 else if bedrooms = 3 then 120
      else if bedrooms = 4 then 160 else if bedrooms = 5 then 200 else 120)"

definition search_by_budget_along_route ::
  "(string \<Rightarrow> (real \<times> real) option) \<Rightarrow> (real \<times> real \<Rightarrow> real \<times> real \<Rightarrow> route_info) \<Rightarrow> zones
     \<Rightarrow> string \<Rightarrow> string \<Rightarrow> int \<Rightarrow> int \<Rightarrow> real \<Rightarrow> py_error + corridor_reply" where
  "search_by_budget_along_route geocode route_details zones origin destination budget
       bedrooms corridor_width_km =
     (let estimated_sqm = sqm_estimate bedrooms;
          max_price_per_sqm = of_int budget / of_int estimated_sqm
      in search_route_corridor geocode route_details zones origin destination
           corridor_width_km (Some (py_int max_price_per_sqm)) 50 70)"

text \<open>The names of the matched zones of a reply, in the order returned.\<close>

definition matched_zone_names :: "py_error + corridor_reply \<Rightarrow> string list option" where
  "matched_zone_names reply =
     (case reply of
        Inr (CorridorOK r) \<Rightarrow> Some (map cp_zone_name (properties r))
      | _ \<Rightarrow> None)"


section \<open>Sample data\<close>

text \<open>
  A small database in the shape of \<open>data/zones.json\<close>, used to run the functions on
  concrete inputs. The Ajah scores and the price range are those of the documented
  examples; \<open>example_inverted\<close> carries a range written the wrong way round.
\<close>

definition example_ajah :: zone where
  "example_ajah =
     \<lparr>zone_location = ''Ajah, Lagos'', coord_lat = 6.47, coord_lng = 3.59,
      flood_risk_score = 75, security_score = 55, infrastructure_score = 60,
      zone_market_data =
        \<lparr>avg_price_per_sqm = 150000,
         price_range = naira @ ''25M - '' @ naira @ ''60M (3-bedroom)'',
         appreciation_5yr = 0.08, rental_yield = 0.06, days_to_sell_avg = 120\<rparr>,
      zone_hidden_costs =
        \<lparr>omo_onile = 500000, land_survey = 150000, flood_insurance = 200000,
         generator_diesel_monthly = 80000, borehole_maintenance = Some 50000,
         estate_service_charge = None\<rparr>\<rparr>"

definition example_lekki :: zone where
  "example_lekki =
     \<lparr>zone_location = ''Lekki Phase 1, Lagos'', coord_lat = 6.45, coord_lng = 3.47,
      flood_risk_score = 45, security_score = 80, infrastructure_score = 85,
      zone_market_data =
        \<lparr>avg_price_per_sqm = 450000,
         price_range = naira @ ''80M - '' @ naira @ ''200M (3-bedroom)'',
         appreciation_5yr = 0.12, rental_yield = 0.05, days_to_sell_avg = 75\<rparr>,
      zone_hidden_costs =
        \<lparr>omo_onile = 0, land_survey = 200000, flood_insurance = 150000,
         generator_diesel_monthly = 120000, borehole_maintenance = None,
         estate_service_charge = Some 600000\<rparr>\<rparr>"

definition example_ikoyi :: zone where
  "example_ikoyi =
     \<lparr>zone_location = ''Ikoyi, Lagos'', coord_lat = 6.45, coord_lng = 3.43,
      flood_risk_score = 20, security_score = 92, infrastructure_score = 95,
      zone_market_data =
        \<lparr>avg_price_per_sqm = 900000,
         price_range = naira @ ''250M - '' @ naira @ ''800M (3-bedroom)'',
         appreciation_5yr = 0.1, rental_yield = 0.04, days_to_sell_avg = 160\<rparr>,
      zone_hidden_costs =
        \<lparr>omo_onile = 0, land_survey = 300000, flood_insurance = 50000,
         generator_diesel_monthly = 150000, borehole_maintenance = None,
         estate_service_charge = Some 1200000\<rparr>\<rparr>"

definition example_zones :: zones where
  "example_zones =
     [(''Ajah'', example_ajah), (''Lekki Phase 1'', example_lekki), (''Ikoyi'', example_ikoyi)]"

definition example_inverted :: zone where
  "example_inverted =
     example_ajah\<lparr>zone_market_data :=
       (zone_market_data example_ajah)\<lparr>price_range := naira @ ''60M - '' @ naira @ ''25M''\<rparr>\<rparr>"




definition no_geocode :: "string \<Rightarrow> (real \<times> real) option" where
  "no_geocode address = None"

definition example_route_details :: "real \<times> real \<Rightarrow> real \<times> real \<Rightarrow> route_info" where
  "example_route_details origin_coords dest_coords = RouteInfoOK 12 30"


section \<open>Rounding and lookup\<close>

lemma py_round_of_int: "py_round (of_int k) = k"
  by (simp add: py_round_def)

lemma py_round_ndigits_tenths:
  assumes "x * 10 = of_int k"
  shows "py_round_ndigits x 1 = x"
proof -
  have "py_round (x * 10 ^ 1) = k"
    using assms by (simp add: py_round_of_int)
  then have "py_round_ndigits x 1 = of_int k / 10"
    by (simp add: py_round_ndigits_def)
  also have "\<dots> = x" using assms by simp
  finally show ?thesis .
qed

lemma evaluate_price_total:
  assumes "map_of zones_data key = Some zone"
  shows "\<exists>v. evaluate_price zones_data offered avg key = Inr v"
  using assms by (simp add: evaluate_price_def Let_def split: option.split prod.split)

section \<open>The price verdict\<close>

lemma py_float_nonneg: "0 \<le> py_float ds"
  by (simp add: py_float_def)

text \<open>
  Claim C2, as amended. The price verdict is total: for a zone in the database every
  offered price and every range text give one verdict, with status UNKNOWN exactly when
  the range does not parse. When it parses, the tests run in the order of the source and
  the first that holds decides: UNDERPRICED iff \<open>price < low * 0.9\<close>; FAIR iff
  \<open>low * 0.9 \<le> price \<le> mid\<close>; ELEVATED iff neither of these and \<open>price \<le> high\<close>;
  OVERPRICED iff none of them. For a range with \<open>Lo \<le> Hi\<close> this is ELEVATED iff
  \<open>mid < price \<le> high\<close> and OVERPRICED iff \<open>price > high\<close>.
\<close>

theorem evaluate_price_classification:
  assumes "map_of zones_data key = Some zone"
  shows "\<exists>v. evaluate_price zones_data offered avg key = Inr v \<and>
     (case re_search (price_range (zone_market_data zone)) of
        None \<Rightarrow> status v = UNKNOWN
      | Some (g1, g2) \<Rightarrow>
          (let low = py_float g1 * 1000000; high = py_float g2 * 1000000;
               mid = (low + high) / 2
           in status v \<noteq> UNKNOWN
              \<and> (status v = UNDERPRICED \<longleftrightarrow> offered < low * 0.9)
              \<and> (status v = FAIR \<longleftrightarrow> low * 0.9 \<le> offered \<and> offered \<le> mid)
              \<and> (status v = ELEVATED \<longleftrightarrow> low * 0.9 \<le> offered \<and> mid < offered \<and> offered \<le> high)
              \<and> (status v = OVERPRICED \<longleftrightarrow> low * 0.9 \<le> offered \<and> mid < offered \<and> high < offered)
              \<and> (py_float g1 \<le> py_float g2 \<longrightarrow>
                    (status v = ELEVATED \<longleftrightarrow> mid < offered \<and> offered \<le> high)
                    \<and> (status v = OVERPRICED \<longleftrightarrow> high < offered))))"
proof (cases "re_search (price_range (zone_market_data zone))")
  case None
  then show ?thesis
    using assms by (simp add: evaluate_price_def)
next
  case (Some m)
  obtain g1 g2 where m: "m = (g1, g2)" by (cases m)
  define low where "low = py_float g1 * 1000000"
  define high where "high = py_float g2 * 1000000"
  define mid where "mid = (low + high) / 2"
  define st where "st = (if offered < low * 0.9 then UNDERPRICED
                           else if offered \<le> mid then FAIR
                           else if offered \<le> high then ELEVATED
                           else OVERPRICED)"
  define v where "v = \<lparr>status = st, market_range = price_range (zone_market_data zone),
      offered_price = offered, market_median = Some mid\<rparr>"
  have res: "evaluate_price zones_data offered avg key = Inr v"
    using assms Some m
    by (simp add: evaluate_price_def Let_def v_def st_def mid_def high_def low_def)
  have stv: "status v = st" by (simp add: v_def)
  have low0: "0 \<le> low" by (simp add: low_def py_float_nonneg)
  have ordered: "low * 0.9 \<le> mid \<and> mid \<le> high" if "py_float g1 \<le> py_float g2"
  proof -
    from that have "low \<le> high" by (simp add: low_def high_def)
    with low0 show ?thesis by (simp add: mid_def)
  qed
  have general: "status v \<noteq> UNKNOWN
              \<and> (status v = UNDERPRICED \<longleftrightarrow> offered < low * 0.9)
              \<and> (status v = FAIR \<longleftrightarrow> low * 0.9 \<le> offered \<and> offered \<le> mid)
              \<and> (status v = ELEVATED \<longleftrightarrow> low * 0.9 \<le> offered \<and> mid < offered \<and> offered \<le> high)
              \<and> (status v = OVERPRICED \<longleftrightarrow> low * 0.9 \<le> offered \<and> mid < offered \<and> high < offered)"
    unfolding stv st_def by (auto simp: not_less not_le)
  have bands: "(status v = ELEVATED \<longleftrightarrow> mid < offered \<and> offered \<le> high)
                    \<and> (status v = OVERPRICED \<longleftrightarrow> high < offered)"
    if "py_float g1 \<le> py_float g2"
  proof -
    have a: "low * 0.9 \<le> mid" and b: "mid \<le> high"
      using ordered [OF that] by simp_all
    have "(low * 0.9 \<le> offered \<and> mid < offered \<and> offered \<le> high) \<longleftrightarrow> (mid < offered \<and> offered \<le> high)"
      using a by linarith
    moreover have "(low * 0.9 \<le> offered \<and> mid < offered \<and> high < offered) \<longleftrightarrow> high < offered"
      using a b by linarith
    ultimately show ?thesis using general by simp
  qed
  have body: "status v \<noteq> UNKNOWN
              \<and> (status v = UNDERPRICED \<longleftrightarrow> offered < low * 0.9)
              \<and> (status v = FAIR \<longleftrightarrow> low * 0.9 \<le> offered \<and> offered \<le> mid)
              \<and> (status v = ELEVATED \<longleftrightarrow> low * 0.9 \<le> offered \<and> mid < offered \<and> offered \<le> high)
              \<and> (status v = OVERPRICED \<longleftrightarrow> low * 0.9 \<le> offered \<and> mid < offered \<and> high < offered)
              \<and> (py_float g1 \<le> py_float g2 \<longrightarrow>
                    (status v = ELEVATED \<longleftrightarrow> mid < offered \<and> offered \<le> high)
                    \<and> (status v = OVERPRICED \<longleftrightarrow> high < offered))"
    using general bands by blast
  show ?thesis
    unfolding Some m option.case prod.case Let_def
      low_def [symmetric] high_def [symmetric] mid_def [symmetric]
    using res body by blast
qed

lemma example_ajah_range:
  "re_search (price_range (zone_market_data example_ajah)) = Some (''25'', ''60'')"
  by (simp add: example_ajah_def naira_def match_here_def digits1_def is_digit_def is_space_def)

lemma example_inverted_range:
  "re_search (price_range (zone_market_data example_inverted)) = Some (''60'', ''25'')"
  by (simp add: example_inverted_def example_ajah_def naira_def match_here_def digits1_def is_digit_def is_space_def)

lemma py_float_examples: "py_float ''25'' = 25" "py_float ''60'' = 60"
  by (simp_all add: py_float_def digit_value_def)

theorem evaluate_price_classification_witness:
  "map_of example_zones ''Ajah'' = Some example_ajah
   \<and> re_search (price_range (zone_market_data example_ajah)) = Some (''25'', ''60'')
   \<and> py_float ''25'' \<le> py_float ''60''
   \<and> (\<exists>v. evaluate_price example_zones 70000000 150000 ''Ajah'' = Inr v
          \<and> status v = OVERPRICED)"
proof -
  have h: "map_of example_zones ''Ajah'' = Some example_ajah"
    by (simp add: example_zones_def)
  show ?thesis
    using h evaluate_price_classification [OF h, of 70000000 150000]
    by (auto simp: example_ajah_range py_float_examples Let_def)
qed

text \<open>
  For the range written with \<open>Lo = 60\<close> above \<open>Hi = 25\<close>, an offer of 50 million is
  above \<open>high\<close> and is classified UNDERPRICED, the first test of the chain.
\<close>

theorem evaluate_price_inverted_range_counterexample:
  "map_sum id status (evaluate_price [(''Inverted'', example_inverted)] 50000000 150000 ''Inverted'')
     = Inr UNDERPRICED
   \<and> re_search (price_range (zone_market_data example_inverted)) = Some (''60'', ''25'')
   \<and> py_float ''25'' * 1000000 < (50000000 :: real)"
  by (simp add: evaluate_price_def example_inverted_range py_float_examples Let_def
      py_float_def digit_value_def)

section \<open>The return on investment\<close>

text \<open>
  The figures of the reply when neither division fails: the price and the holding period
  are both non-zero.
\<close>

lemma calculate_roi_value:
  assumes "map_of zones_data (normalize_location zones_data location) = Some zone"
    and "price \<noteq> 0" and "holding_period \<noteq> 0"
  shows "\<exists>r. calculate_roi zones_data price location holding_period = Inr (Roi r)
    \<and> roi_capital_gain r
        = price * (appreciation_5yr (zone_market_data zone) * of_int holding_period)
    \<and> roi_one_time_costs r
        = omo_onile (zone_hidden_costs zone) + land_survey (zone_hidden_costs zone)
    \<and> roi_annual_costs r
        = generator_diesel_monthly (zone_hidden_costs zone) * 12
          + flood_insurance (zone_hidden_costs zone)
          + (case borehole_maintenance (zone_hidden_costs zone) of Some b \<Rightarrow> b | None \<Rightarrow> 0)
          + (case estate_service_charge (zone_hidden_costs zone) of Some c \<Rightarrow> c | None \<Rightarrow> 0)
    \<and> roi_total_hidden_costs r
        = roi_one_time_costs r + roi_annual_costs r * of_int holding_period
    \<and> roi_net_return r
        = roi_total_rental_income r + roi_capital_gain r - roi_total_hidden_costs r
    \<and> roi_percentage r = roi_net_return r / price * 100"
  using assms
  by (simp add: calculate_roi_def py_truediv_def Let_def split: option.split)

text \<open>
  Claim C3. For a zone of the database, a price above 0 and a holding period \<open>y \<ge> 1\<close>,
  the capital gain of \<open>calculate_roi\<close> is \<open>price * rate * y\<close>, linear and not compounded,
  and the hidden-cost total is the one-time costs plus the recurring annual costs times
  \<open>y\<close>, the one-time costs being omo-onile plus land survey and the recurring ones twelve
  months of generator fuel, the flood insurance and the optional fees that are present.
  With the holding period doubled the capital gain and the recurring part double and the
  one-time part stays as it is.
\<close>

theorem calculate_roi_linear_in_holding_period:
  assumes "map_of zones_data (normalize_location zones_data location) = Some zone"
    and "0 < price" and "1 \<le> y"
  shows "\<exists>r r2. calculate_roi zones_data price location y = Inr (Roi r)
    \<and> calculate_roi zones_data price location (2 * y) = Inr (Roi r2)
    \<and> roi_capital_gain r = price * appreciation_5yr (zone_market_data zone) * of_int y
    \<and> roi_one_time_costs r
        = omo_onile (zone_hidden_costs zone) + land_survey (zone_hidden_costs zone)
    \<and> roi_annual_costs r
        = 12 * generator_diesel_monthly (zone_hidden_costs zone)
          + flood_insurance (zone_hidden_costs zone)
          + (case borehole_maintenance (zone_hidden_costs zone) of Some b \<Rightarrow> b | None \<Rightarrow> 0)
          + (case estate_service_charge (zone_hidden_costs zone) of Some c \<Rightarrow> c | None \<Rightarrow> 0)
    \<and> roi_total_hidden_costs r = roi_one_time_costs r + roi_annual_costs r * of_int y
    \<and> roi_capital_gain r2 = 2 * roi_capital_gain r
    \<and> roi_total_hidden_costs r2 - roi_one_time_costs r2
        = 2 * (roi_total_hidden_costs r - roi_one_time_costs r)
    \<and> roi_one_time_costs r2 = roi_one_time_costs r"
proof -
  from assms have p: "price \<noteq> 0" and y: "y \<noteq> 0" and y2: "2 * y \<noteq> 0"
    by simp_all
  obtain r where r: "calculate_roi zones_data price location y = Inr (Roi r)"
    "roi_capital_gain r = price * (appreciation_5yr (zone_market_data zone) * of_int y)"
    "roi_one_time_costs r
        = omo_onile (zone_hidden_costs zone) + land_survey (zone_hidden_costs zone)"
    "roi_annual_costs r
        = generator_diesel_monthly (zone_hidden_costs zone) * 12
          + flood_insurance (zone_hidden_costs zone)
          + (case borehole_maintenance (zone_hidden_costs zone) of Some b \<Rightarrow> b | None \<Rightarrow> 0)
          + (case estate_service_charge (zone_hidden_costs zone) of Some c \<Rightarrow> c | None \<Rightarrow> 0)"
    "roi_total_hidden_costs r = roi_one_time_costs r + roi_annual_costs r * of_int y"
    using calculate_roi_value [OF assms(1) p y] by blast
  obtain r2 where r2: "calculate_roi zones_data price location (2 * y) = Inr (Roi r2)"
    "roi_capital_gain r2
       = price * (appreciation_5yr (zone_market_data zone) * of_int (2 * y))"
    "roi_one_time_costs r2
        = omo_onile (zone_hidden_costs zone) + land_survey (zone_hidden_costs zone)"
    "roi_annual_costs r2
        = generator_diesel_monthly (zone_hidden_costs zone) * 12
          + flood_insurance (zone_hidden_costs zone)
          + (case borehole_maintenance (zone_hidden_costs zone) of Some b \<Rightarrow> b | None \<Rightarrow> 0)
          + (case estate_service_charge (zone_hidden_costs zone) of Some c \<Rightarrow> c | None \<Rightarrow> 0)"
    "roi_total_hidden_costs r2 = roi_one_time_costs r2 + roi_annual_costs r2 * of_int (2 * y)"
    using calculate_roi_value [OF assms(1) p y2] by blast
  have gain2: "roi_capital_gain r2 = 2 * roi_capital_gain r"
    by (simp add: r(2) r2(2))
  have rec2: "roi_total_hidden_costs r2 - roi_one_time_costs r2
        = 2 * (roi_total_hidden_costs r - roi_one_time_costs r)"
    by (simp add: r(4,5) r2(4,5))
  have once: "roi_one_time_costs r2 = roi_one_time_costs r"
    by (simp add: r(3) r2(3))
  have gain: "roi_capital_gain r = price * appreciation_5yr (zone_market_data zone) * of_int y"
    by (simp add: r(2))
  have annual: "roi_annual_costs r
        = 12 * generator_diesel_monthly (zone_hidden_costs zone)
          + flood_insurance (zone_hidden_costs zone)
          + (case borehole_maintenance (zone_hidden_costs zone) of Some b \<Rightarrow> b | None \<Rightarrow> 0)
          + (case estate_service_charge (zone_hidden_costs zone) of Some c \<Rightarrow> c | None \<Rightarrow> 0)"
    by (simp add: r(4))
  show ?thesis
    using r(1) r2(1) gain r(3) annual r(5) gain2 rec2 once by blast
qed

theorem calculate_roi_linear_in_holding_period_witness:
  "map_of example_zones (normalize_location example_zones ''Ajah'') = Some example_ajah
   \<and> (0::real) < 45000000 \<and> (1::int) \<le> 5
   \<and> (\<exists>r r2. calculate_roi example_zones 45000000 ''Ajah'' 5 = Inr (Roi r)
         \<and> calculate_roi example_zones 45000000 ''Ajah'' (2 * 5) = Inr (Roi r2)
         \<and> roi_capital_gain r = 18000000 \<and> roi_capital_gain r2 = 2 * roi_capital_gain r
         \<and> roi_one_time_costs r = 650000 \<and> roi_one_time_costs r2 = roi_one_time_costs r
         \<and> roi_annual_costs r = 1210000
         \<and> roi_total_hidden_costs r = 6700000)"
proof -
  have h: "map_of example_zones (normalize_location example_zones ''Ajah'') = Some example_ajah"
    by (simp add: example_zones_def normalize_location_def)
  have v: "appreciation_5yr (zone_market_data example_ajah) = 0.08"
    "omo_onile (zone_hidden_costs example_ajah) = 500000"
    "land_survey (zone_hidden_costs example_ajah) = 150000"
    "generator_diesel_monthly (zone_hidden_costs example_ajah) = 80000"
    "flood_insurance (zone_hidden_costs example_ajah) = 200000"
    "borehole_maintenance (zone_hidden_costs example_ajah) = Some 50000"
    "estate_service_charge (zone_hidden_costs example_ajah) = None"
    by (simp_all add: example_ajah_def)
  show ?thesis
    using h calculate_roi_linear_in_holding_period [OF h, where price = 45000000 and y = 5]
    by (auto simp: v)
qed

lemma calculate_roi_zero_division:
  assumes "map_of zones_data (normalize_location zones_data location) = Some zone"
    and "price = 0 \<or> holding_period = 0"
  shows "calculate_roi zones_data price location holding_period = Inl ZeroDivisionError"
  using assms by (auto simp: calculate_roi_def py_truediv_def Let_def)

text \<open>
  Claim C10, as amended. \<open>calculate_roi\<close> divides the net return by the price without
  a guard, and the percentage by the holding period without a guard. For a zone of the
  database the call raises exactly when the price or the holding period is 0, the error
  being the division's \<open>ZeroDivisionError\<close>; otherwise it returns a reply whose
  percentage is the net return over the price times 100.
\<close>

theorem calculate_roi_zero_price:
  assumes "map_of zones_data (normalize_location zones_data location) = Some zone"
  shows "((\<exists>e. calculate_roi zones_data price location holding_period = Inl e)
            \<longleftrightarrow> price = 0 \<or> holding_period = 0)
    \<and> (price = 0 \<or> holding_period = 0 \<longrightarrow>
          calculate_roi zones_data price location holding_period = Inl ZeroDivisionError)
    \<and> (price \<noteq> 0 \<and> holding_period \<noteq> 0 \<longrightarrow>
          (\<exists>r. calculate_roi zones_data price location holding_period = Inr (Roi r)
             \<and> roi_percentage r = roi_net_return r / price * 100))"
proof (cases "price = 0 \<or> holding_period = 0")
  case True
  then have "calculate_roi zones_data price location holding_period = Inl ZeroDivisionError"
    by (rule calculate_roi_zero_division [OF assms])
  with True show ?thesis by simp
next
  case False
  then have p: "price \<noteq> 0" and y: "holding_period \<noteq> 0" by simp_all
  show ?thesis
    using calculate_roi_value [OF assms p y] p y by auto
qed

theorem calculate_roi_zero_price_witness:
  "map_of example_zones (normalize_location example_zones ''Ajah'') = Some example_ajah
   \<and> calculate_roi example_zones 0 ''Ajah'' 5 = Inl ZeroDivisionError
   \<and> (45000000::real) \<noteq> 0 \<and> (5::int) \<noteq> 0
   \<and> (\<exists>r. calculate_roi example_zones 45000000 ''Ajah'' 5 = Inr (Roi r)
          \<and> roi_percentage r = roi_net_return r / 45000000 * 100)"
proof -
  have h: "map_of example_zones (normalize_location example_zones ''Ajah'') = Some example_ajah"
    by (simp add: example_zones_def normalize_location_def)
  show ?thesis
    using h calculate_roi_zero_price [OF h, where price = 0 and holding_period = 5]
      calculate_roi_zero_price [OF h, where price = 45000000 and holding_period = 5]
    by simp
qed

text \<open>
  With a price of 45 million and a holding period of 0 the price is not 0 and the call
  raises all the same, in the division by the holding period.
\<close>

theorem calculate_roi_zero_holding_period_counterexample:
  "calculate_roi example_zones 45000000 ''Ajah'' 0 = Inl ZeroDivisionError
   \<and> (45000000 :: real) \<noteq> 0"
proof -
  have h: "map_of example_zones (normalize_location example_zones ''Ajah'') = Some example_ajah"
    by (simp add: example_zones_def normalize_location_def)
  show ?thesis
    using calculate_roi_zero_division [OF h, of 45000000 0] by simp
qed

section \<open>Distances\<close>

lemma py_round_nonneg: "0 \<le> x \<Longrightarrow> 0 \<le> py_round x"
  by (simp add: py_round_def Let_def)




lemma py_round_ndigits_nonneg: "0 \<le> x \<Longrightarrow> 0 \<le> py_round_ndigits x n"
  by (simp add: py_round_ndigits_def py_round_nonneg)

section \<open>Doubles\<close>

lemma fl_zero: "fl 0 = 0"
  by (simp add: fl_def)

lemma fl_nonneg: "0 \<le> x \<Longrightarrow> 0 \<le> fl x"
  by (simp add: fl_def Let_def py_round_nonneg)

lemma py_round_mono_int_le:
  assumes "of_int k \<le> x"
  shows "k \<le> py_round x"
proof -
  from assms have "k \<le> \<lfloor>x\<rfloor>" by (simp add: le_floor_iff)
  then show ?thesis by (auto simp: py_round_def Let_def)
qed

lemma py_round_mono_int_ge:
  assumes "x \<le> of_int k"
  shows "py_round x \<le> k"
proof (cases "x = of_int k")
  case True
  then show ?thesis by (simp add: py_round_of_int)
next
  case False
  with assms have "x < of_int k" by simp
  then have "\<lfloor>x\<rfloor> < k" by (simp add: floor_less_iff)
  then show ?thesis by (auto simp: py_round_def Let_def)
qed





text \<open>A double is its own double.\<close>

lemma fl_idem:
  assumes "0 \<le> x"
  shows "fl (fl x) = fl x"
proof (cases "x = 0")
  case True
  then show ?thesis by (simp add: fl_zero)
next
  case False
  with assms have x: "0 < x" by simp
  define e0 where "e0 = \<lfloor>log 2 x\<rfloor>"
  define e where "e = max e0 (- 1022)"
  define u where "u = (2 :: real) powr of_int (e - 52)"
  define m where "m = py_round (x / u)"
  have u: "0 < u" by (simp add: u_def)
  have y: "fl x = of_int m * u"
    using x by (simp add: fl_def Let_def m_def u_def e_def e0_def)
  have e_lo: "- 1022 \<le> e" and e0_le: "e0 \<le> e" by (simp_all add: e_def)
  have bin: "2 powr of_int e0 \<le> x" "x < 2 powr of_int (e0 + 1)"
    using x floor_log_eq_powr_iff [of x 2 e0] by (simp_all add: e0_def)
  have split: "2 powr of_int (k + 52) = 2 ^ 52 * (2 :: real) powr of_int k" for k :: int
  proof -
    have "(2 :: real) powr (of_int k + 52) = 2 powr of_int k * 2 powr 52"
      by (rule powr_add)
    then show ?thesis by (simp add: add.commute)
  qed
  have up: "2 powr of_int (e + 1) = 2 ^ 53 * u"
  proof -
    have "of_int (e + 1) = of_int (e - 52) + (53 :: real)" by simp
    then have "(2 :: real) powr of_int (e + 1) = 2 powr of_int (e - 52) * 2 powr 53"
      by (simp only: powr_add)
    then show ?thesis by (simp add: u_def)
  qed
  have lo: "2 powr of_int e = 2 ^ 52 * u"
  proof -
    have "of_int e = of_int (e - 52) + (52 :: real)" by simp
    then have "(2 :: real) powr of_int e = 2 powr of_int (e - 52) * 2 powr 52"
      by (simp only: powr_add)
    then show ?thesis by (simp add: u_def)
  qed
  have "x < 2 powr of_int (e + 1)"
  proof -
    have "(2 :: real) powr of_int (e0 + 1) \<le> 2 powr of_int (e + 1)"
      using e0_le by (intro powr_mono) simp_all
    with bin(2) show ?thesis by (rule less_le_trans)
  qed
  then have "x < 2 ^ 53 * u" unfolding up .
  then have "x / u < 2 ^ 53"
    using u by (simp add: divide_less_eq)
  then have "x / u \<le> of_int (2 ^ 53)" by simp
  then have m_hi: "m \<le> 2 ^ 53"
    unfolding m_def by (rule py_round_mono_int_ge)
  have m0: "0 \<le> m"
    unfolding m_def using x u by (intro py_round_nonneg) simp
  show ?thesis
  proof (cases "m = 0")
    case True
    then show ?thesis by (simp add: y fl_zero)
  next
    case False
    with m0 have m1: "1 \<le> m" by simp
    define v where "v = of_int m * u"
    have v: "0 < v" using m1 u by (simp add: v_def)
    define f0 where "f0 = \<lfloor>log 2 v\<rfloor>"
    define f where "f = max f0 (- 1022)"
    have fbin: "2 powr of_int f0 \<le> v" "v < 2 powr of_int (f0 + 1)"
      using v floor_log_eq_powr_iff [of v 2 f0] by (simp_all add: f0_def)
    have v_hi: "v \<le> 2 powr of_int (e + 1)"
      unfolding up v_def using m_hi u by (simp add: of_int_le_iff [of m "2 ^ 53", simplified])
    have f0_hi: "f0 \<le> e + 1"
    proof (rule ccontr)
      assume "\<not> f0 \<le> e + 1"
      then have "e + 1 + 1 \<le> f0" by simp
      then have "(2 :: real) powr of_int (e + 1 + 1) \<le> 2 powr of_int f0"
        by (intro powr_mono) simp_all
      moreover have "(2 :: real) powr of_int (e + 1) < 2 powr of_int (e + 1 + 1)"
        by (intro powr_less_mono) simp_all
      ultimately show False using fbin(1) v_hi by linarith
    qed
    have f_hi: "f \<le> e + 1" using f0_hi e_lo by (simp add: f_def)
    have f_lo: "e \<le> f"
    proof (cases "e = - 1022")
      case True
      then show ?thesis by (simp add: f_def)
    next
      case False
      with e_lo have "e = e0" by (simp add: e_def max_def split: if_splits)
      with bin(1) have "2 powr of_int e \<le> x" by simp
      then have "2 ^ 52 \<le> x / u"
        using u by (simp add: lo le_divide_eq)
      then have "of_int (2 ^ 52) \<le> x / u" by simp
      then have "2 ^ 52 \<le> m"
        unfolding m_def by (rule py_round_mono_int_le)
      then have "(2 :: real) ^ 52 \<le> of_int m"
        by (simp add: of_int_le_iff [of "2 ^ 52" m, simplified])
      then have "2 powr of_int e \<le> v"
        unfolding lo v_def using u by simp
      have "e \<le> f0"
      proof (rule ccontr)
        assume "\<not> e \<le> f0"
        then have "f0 + 1 \<le> e" by simp
        then have "(2 :: real) powr of_int (f0 + 1) \<le> 2 powr of_int e"
          by (intro powr_mono) simp_all
        with fbin(2) \<open>2 powr of_int e \<le> v\<close> show False by linarith
      qed
      then show ?thesis by (simp add: f_def)
    qed
    have "\<exists>j. v / 2 powr of_int (f - 52) = of_int j"
    proof (cases "f = e")
      case True
      then have "v / 2 powr of_int (f - 52) = of_int m"
        using u by (simp add: v_def u_def)
      then show ?thesis by blast
    next
      case False
      with f_lo f_hi have fe: "f = e + 1" by simp
      then have "f0 = e + 1" using e_lo by (simp add: f_def max_def split: if_splits)
      with fbin(1) have "2 powr of_int (e + 1) \<le> v" by simp
      with v_hi have "v = 2 powr of_int (e + 1)" by (rule antisym)
      then have veq: "v = 2 ^ 53 * u" unfolding up .
      have "of_int (f - 52) = of_int (e - 52) + (1 :: real)" by (simp add: fe)
      then have "(2 :: real) powr of_int (f - 52) = 2 powr of_int (e - 52) * 2 powr 1"
        by (simp only: powr_add)
      then have "2 powr of_int (f - 52) = 2 * u" by (simp add: u_def)
      then have "v / 2 powr of_int (f - 52) = of_int (2 ^ 52)"
        using u by (simp add: veq)
      then show ?thesis by blast
    qed
    then obtain j where j: "v / 2 powr of_int (f - 52) = of_int j" by blast
    have "fl v = of_int (py_round (v / 2 powr of_int (f - 52))) * 2 powr of_int (f - 52)"
      using v by (simp add: fl_def Let_def f_def f0_def)
    also have "\<dots> = of_int j * 2 powr of_int (f - 52)"
      by (simp only: j py_round_of_int)
    also have "\<dots> = v"
      using j by (simp add: field_simps)
    finally show ?thesis by (simp add: y v_def)
  qed
qed

section \<open>Distances, continued\<close>


lemma atan2_nonneg: "0 \<le> y \<Longrightarrow> 0 \<le> x \<Longrightarrow> 0 \<le> atan2 y x"
  by (auto simp: atan2_def)

lemma cos_radians_nonneg:
  assumes "\<bar>lat\<bar> \<le> 90"
  shows "0 \<le> cos (radians lat)"
proof (rule cos_ge_zero)
  from assms have "lat \<le> 90" and "- 90 \<le> lat" by simp_all
  then have "lat * pi \<le> 90 * pi" and "(- 90) * pi \<le> lat * pi"
    by (intro mult_right_mono, simp, simp)+
  then show "- (pi / 2) \<le> radians lat" and "radians lat \<le> pi / 2"
    by (simp_all add: radians_def)
qed

lemma haversine_a_bounds:
  assumes "\<bar>fst coord1\<bar> \<le> 90" and "\<bar>fst coord2\<bar> \<le> 90"
  shows "0 \<le> haversine_a coord1 coord2" and "haversine_a coord1 coord2 \<le> 1"
proof -
  define p1 where "p1 = radians (fst coord1)"
  define p2 where "p2 = radians (fst coord2)"
  define dl where "dl = radians (snd coord2) - radians (snd coord1)"
  have a: "haversine_a coord1 coord2
             = (sin ((p2 - p1) / 2))\<^sup>2 + cos p1 * cos p2 * (sin (dl / 2))\<^sup>2"
    by (simp add: haversine_a_def Let_def p1_def p2_def dl_def)
  have c: "0 \<le> cos p1 * cos p2"
    using cos_radians_nonneg [OF assms(1)] cos_radians_nonneg [OF assms(2)]
    by (simp add: p1_def p2_def)
  have s: "(sin (dl / 2))\<^sup>2 \<le> 1"
    by (simp add: sin_squared_eq)
  show "0 \<le> haversine_a coord1 coord2"
    using c by (simp add: a)
  define Q where "Q = (sin ((p2 - p1) / 2))\<^sup>2"
  define T where "T = cos p1 * cos p2 * (sin (dl / 2))\<^sup>2"
  define C where "C = cos p1 * cos p2"
  define S where "S = sin p1 * sin p2"
  have "T \<le> C * 1"
    unfolding T_def C_def using s c by (rule mult_left_mono)
  then have t: "T \<le> C" by simp
  have "cos (2 * ((p2 - p1) / 2)) = 1 - 2 * (sin ((p2 - p1) / 2))\<^sup>2"
    by (rule cos_double_sin)
  moreover have "2 * ((p2 - p1) / 2) = p2 - p1" by simp
  ultimately have "cos (p2 - p1) = 1 - 2 * Q"
    unfolding Q_def by (simp only:)
  moreover have "cos (p2 - p1) = C + S"
    unfolding C_def S_def by (simp add: cos_diff)
  ultimately have q: "2 * Q = 1 - (C + S)" by linarith
  have "cos (p2 + p1) = C - S"
    unfolding C_def S_def by (simp add: cos_add)
  moreover have "cos (p2 + p1) \<le> 1" by simp
  ultimately have k: "C - S \<le> 1" by linarith
  have "Q + T \<le> 1" using t q k by linarith
  then show "haversine_a coord1 coord2 \<le> 1"
    unfolding a Q_def T_def .
qed

lemma haversine_c_total:
  assumes "\<bar>fst coord1\<bar> \<le> 90" and "\<bar>fst coord2\<bar> \<le> 90"
  shows "\<exists>c. haversine_c coord1 coord2 = Inr c \<and> 0 \<le> c"
  using haversine_a_bounds [OF assms]
  by (simp add: haversine_c_def py_sqrt_def Let_def atan2_nonneg)

lemma calculate_distance_total:
  assumes "\<bar>fst coord1\<bar> \<le> 90" and "\<bar>fst coord2\<bar> \<le> 90"
  shows "\<exists>d. calculate_distance coord1 coord2 = Inr d \<and> 0 \<le> d"
proof -
  obtain c where "haversine_c coord1 coord2 = Inr c" "0 \<le> c"
    using haversine_c_total [OF assms] by blast
  then show ?thesis
    by (simp add: calculate_distance_def py_round_ndigits_nonneg fl_nonneg)
qed

text \<open>A distance that is defined is a double and not negative.\<close>

lemma calculate_distance_double:
  assumes "calculate_distance coord1 coord2 = Inr d"
  shows "0 \<le> d" and "fl d = d"
proof -
  from assms obtain c where c: "haversine_c coord1 coord2 = Inr c"
    and d: "d = fl (py_round_ndigits (6371 * c) 2)"
    by (cases "haversine_c coord1 coord2") (auto simp: calculate_distance_def)
  from c have "0 \<le> c"
    by (auto simp: haversine_c_def py_sqrt_def Let_def atan2_nonneg split: if_splits)
  then have r: "0 \<le> py_round_ndigits (6371 * c) 2"
    by (intro py_round_ndigits_nonneg) simp
  show "0 \<le> d" unfolding d using r by (rule fl_nonneg)
  show "fl d = d" unfolding d using r by (rule fl_idem)
qed

lemma calculate_distance_same: "calculate_distance coord coord = Inr 0"
  by (simp add: calculate_distance_def haversine_c_def haversine_a_def py_sqrt_def atan2_def
      py_round_ndigits_def py_round_def Let_def fl_zero)




section \<open>The corridor test\<close>

lemma is_along_route_value:
  assumes "calculate_distance origin point = Inr d1"
    and "calculate_distance point destination = Inr d2"
    and "calculate_distance origin destination = Inr d3"
  shows "is_along_route origin destination point w
           = Inr (\<bar>fl (fl (d1 + d2) - d3)\<bar> \<le> w)"
  using assms by (simp add: is_along_route_def Let_def)

lemma is_along_route_total:
  assumes "\<bar>fst origin\<bar> \<le> 90" and "\<bar>fst destination\<bar> \<le> 90" and "\<bar>fst point\<bar> \<le> 90"
  shows "\<exists>b. is_along_route origin destination point w = Inr b"
proof -
  obtain d1 d2 d3 where "calculate_distance origin point = Inr d1"
    "calculate_distance point destination = Inr d2"
    "calculate_distance origin destination = Inr d3"
    using calculate_distance_total [OF assms(1) assms(3)]
      calculate_distance_total [OF assms(3) assms(2)]
      calculate_distance_total [OF assms(1) assms(2)] by blast
  then show ?thesis by (simp add: is_along_route_value)
qed

lemma is_along_route_distance:
  assumes "is_along_route origin destination point w = Inr b"
  shows "\<exists>d. calculate_distance origin point = Inr d"
  using assms by (cases "calculate_distance origin point") (simp_all add: is_along_route_def)

lemma is_along_route_at_origin:
  assumes "\<bar>fst origin\<bar> \<le> 90" and "\<bar>fst destination\<bar> \<le> 90"
  shows "is_along_route origin destination origin w = Inr (0 \<le> w)"
proof -
  obtain d where d: "calculate_distance origin destination = Inr d"
    using calculate_distance_total [OF assms] by blast
  show ?thesis
    using is_along_route_value [OF calculate_distance_same d d, of w]
    by (simp add: calculate_distance_double(2) [OF d] fl_zero)
qed

lemma is_along_route_at_destination:
  assumes "\<bar>fst origin\<bar> \<le> 90" and "\<bar>fst destination\<bar> \<le> 90"
  shows "is_along_route origin destination destination w = Inr (0 \<le> w)"
proof -
  obtain d where d: "calculate_distance origin destination = Inr d"
    using calculate_distance_total [OF assms] by blast
  show ?thesis
    using is_along_route_value [OF d calculate_distance_same d, of w]
    by (simp add: calculate_distance_double(2) [OF d] fl_zero)
qed

section \<open>The corridor search\<close>

lemma corridor_entry_simps [simp]:
  "cp_zone_name (corridor_entry n z d) = n"
  "cp_distance_from_origin_km (corridor_entry n z d) = d"
  "cp_security_score (corridor_entry n z d) = security_score z"
  "cp_smart_score (corridor_entry n z d) = calculate_smart_score z"
  by (simp_all add: corridor_entry_def)

text \<open>One round of the loop, by the outcome of the corridor test.\<close>

lemma corridor_loop_error:
  assumes "is_along_route oc dc (coord_lat z, coord_lng z) w = Inl e"
  shows "corridor_loop oc dc w mp ms mf ((n, z) # zs) = Inl e"
  using assms by simp

lemma corridor_loop_round:
  assumes "is_along_route oc dc (coord_lat z, coord_lng z) w = Inr b"
    and "calculate_distance oc (coord_lat z, coord_lng z) = Inr d"
  shows "corridor_loop oc dc w mp ms mf ((n, z) # zs) =
     (if b \<and> \<not> over_price_ceiling mp (avg_price_per_sqm (zone_market_data z))
          \<and> of_int ms \<le> security_score z \<and> flood_risk_score z \<le> of_int mf
      then map_sum id ((#) (corridor_entry n z d)) (corridor_loop oc dc w mp ms mf zs)
      else corridor_loop oc dc w mp ms mf zs)"
  using assms
  by (cases "corridor_loop oc dc w mp ms mf zs") (simp_all add: Let_def not_less)

lemma corridor_loop_total:
  assumes "\<bar>fst oc\<bar> \<le> 90" and "\<bar>fst dc\<bar> \<le> 90"
    and "\<forall>(n, z) \<in> set zs. \<bar>coord_lat z\<bar> \<le> 90"
  shows "\<exists>found. corridor_loop oc dc w mp ms mf zs = Inr found"
  using assms(3)
proof (induction zs)
  case Nil
  show ?case by simp
next
  case (Cons nz zs)
  obtain n z where nz: "nz = (n, z)" by (cases nz)
  from Cons.prems nz have lat: "\<bar>fst (coord_lat z, coord_lng z)\<bar> \<le> 90" by simp
  from Cons obtain found where rest: "corridor_loop oc dc w mp ms mf zs = Inr found"
    by auto
  obtain b where b: "is_along_route oc dc (coord_lat z, coord_lng z) w = Inr b"
    using is_along_route_total [OF assms(1) assms(2) lat] by blast
  obtain d where d: "calculate_distance oc (coord_lat z, coord_lng z) = Inr d"
    using is_along_route_distance [OF b] by blast
  show ?case
    unfolding nz corridor_loop_round [OF b d] by (simp add: rest)
qed

text \<open>A zone whose test holds and that passes the three filters is among the matches.\<close>

lemma corridor_loop_keeps:
  assumes "corridor_loop oc dc w mp ms mf zs = Inr found"
    and "(n, z) \<in> set zs"
    and "is_along_route oc dc (coord_lat z, coord_lng z) w = Inr True"
    and "\<not> over_price_ceiling mp (avg_price_per_sqm (zone_market_data z))"
    and "of_int ms \<le> security_score z"
    and "flood_risk_score z \<le> of_int mf"
  shows "n \<in> cp_zone_name ` set found"
  using assms(1,2)
proof (induction zs arbitrary: found)
  case Nil
  then show ?case by simp
next
  case (Cons nz zs)
  obtain n' z' where nz: "nz = (n', z')" by (cases nz)
  obtain b where b: "is_along_route oc dc (coord_lat z', coord_lng z') w = Inr b"
    using Cons.prems(1) unfolding nz
    by (cases "is_along_route oc dc (coord_lat z', coord_lng z') w") simp_all
  obtain d where d: "calculate_distance oc (coord_lat z', coord_lng z') = Inr d"
    using is_along_route_distance [OF b] by blast
  note round = Cons.prems(1) [unfolded nz corridor_loop_round [OF b d]]
  obtain rest where rest: "corridor_loop oc dc w mp ms mf zs = Inr rest"
    using round by (cases "corridor_loop oc dc w mp ms mf zs") (simp_all split: if_splits)
  have sub: "set rest \<subseteq> set found"
    using round by (auto simp: rest split: if_splits)
  show ?case
  proof (cases "(n, z) = (n', z')")
    case True
    then have "found = corridor_entry n z d # rest"
      using round b assms(3-6) by (simp add: rest)
    then show ?thesis by simp
  next
    case False
    with Cons.prems(2) nz have "(n, z) \<in> set zs" by auto
    from Cons.IH [OF rest this] sub show ?thesis by auto
  qed
qed


text \<open>A higher security floor filters the matches of a lower one.\<close>

lemma corridor_loop_security:
  assumes "s1 \<le> s2"
  shows "corridor_loop oc dc w mp s2 mf zs
           = map_sum id (filter (\<lambda>p. of_int s2 \<le> cp_security_score p))
               (corridor_loop oc dc w mp s1 mf zs)"
proof (induction zs)
  case Nil
  show ?case by simp
next
  case (Cons nz zs)
  obtain n z where nz: "nz = (n, z)" by (cases nz)
  have le: "(of_int s1 :: real) \<le> of_int s2" using assms by simp
  show ?case
  proof (cases "is_along_route oc dc (coord_lat z, coord_lng z) w")
    case (Inl e)
    then show ?thesis by (simp add: nz)
  next
    case (Inr b)
    obtain d where d: "calculate_distance oc (coord_lat z, coord_lng z) = Inr d"
      using is_along_route_distance [OF Inr] by blast
    show ?thesis
      unfolding nz corridor_loop_round [OF Inr d] Cons.IH
      using le by (cases "corridor_loop oc dc w mp s1 mf zs") auto
  qed
qed

lemma over_price_ceiling_zero: "over_price_ceiling (Some 0) price = over_price_ceiling None price"
  by (simp add: over_price_ceiling_def)

lemma corridor_loop_zero_ceiling:
  "corridor_loop oc dc w (Some 0) ms mf zs = corridor_loop oc dc w None ms mf zs"
proof (induction zs)
  case Nil
  show ?case by simp
next
  case (Cons nz zs)
  obtain n z where nz: "nz = (n, z)" by (cases nz)
  show ?case
  proof (cases "is_along_route oc dc (coord_lat z, coord_lng z) w")
    case (Inl e)
    then show ?thesis by (simp add: nz)
  next
    case (Inr b)
    obtain d where d: "calculate_distance oc (coord_lat z, coord_lng z) = Inr d"
      using is_along_route_distance [OF Inr] by blast
    show ?thesis
      unfolding nz corridor_loop_round [OF Inr d] Cons.IH over_price_ceiling_zero ..
  qed
qed

lemma get_coordinates_zone:
  assumes "map_of zones location = Some z"
  shows "get_coordinates geocode location zones = Some (coord_lat z, coord_lng z)"
  using assms by (simp add: get_coordinates_def)

lemma search_route_corridor_ok:
  assumes "get_coordinates geocode origin zones = Some oc"
    and "get_coordinates geocode destination zones = Some dc"
    and "route_details oc dc = RouteInfoOK km mins"
    and "corridor_loop oc dc w mp ms mf zones = Inr found"
  shows "\<exists>r. search_route_corridor geocode route_details zones origin destination w mp ms mf
               = Inr (CorridorOK r)
           \<and> properties r = sort_key cp_distance_from_origin_km found
           \<and> properties_found r = length found
           \<and> param_corridor_width_km r = w"
  using assms by (simp add: search_route_corridor_def Let_def)

section \<open>The sample search from Lekki Phase 1 to Ikoyi\<close>

lemma example_loop:
  assumes "mp = None \<or> mp = Some 0"
  shows "\<exists>d. 0 \<le> d \<and>
     corridor_loop (coord_lat example_lekki, coord_lng example_lekki)
         (coord_lat example_ikoyi, coord_lng example_ikoyi) 5 mp ms 70 example_zones
       = Inr ((if ms \<le> 80 then [corridor_entry ''Lekki Phase 1'' example_lekki 0] else [])
              @ (if ms \<le> 92 then [corridor_entry ''Ikoyi'' example_ikoyi d] else []))"
proof -
  let ?oc = "(coord_lat example_lekki, coord_lng example_lekki)"
  let ?dc = "(coord_lat example_ikoyi, coord_lng example_ikoyi)"
  let ?ac = "(coord_lat example_ajah, coord_lng example_ajah)"
  have h1: "\<bar>fst ?oc\<bar> \<le> 90" and h2: "\<bar>fst ?dc\<bar> \<le> 90" and h3: "\<bar>fst ?ac\<bar> \<le> 90"
    by (simp_all add: example_lekki_def example_ikoyi_def example_ajah_def)
  obtain d where d: "calculate_distance ?oc ?dc = Inr d" and d0: "0 \<le> d"
    using calculate_distance_total [OF h1 h2] by blast
  obtain b where b: "is_along_route ?oc ?dc ?ac 5 = Inr b"
    using is_along_route_total [OF h1 h2 h3] by blast
  obtain da where da: "calculate_distance ?oc ?ac = Inr da"
    using is_along_route_distance [OF b] by blast
  have o: "is_along_route ?oc ?dc ?oc 5 = Inr True"
    using is_along_route_at_origin [OF h1 h2, of 5] by simp
  have e: "is_along_route ?oc ?dc ?dc 5 = Inr True"
    using is_along_route_at_destination [OF h1 h2, of 5] by simp
  have fa: "\<not> flood_risk_score example_ajah \<le> 70"
    by (simp add: example_ajah_def)
  have fl: "flood_risk_score example_lekki \<le> 70"
    "(of_int ms \<le> security_score example_lekki) = (ms \<le> 80)"
    by (simp_all add: example_lekki_def)
  have fi: "flood_risk_score example_ikoyi \<le> 70"
    "(of_int ms \<le> security_score example_ikoyi) = (ms \<le> 92)"
    by (simp_all add: example_ikoyi_def)
  have nc: "\<not> over_price_ceiling mp price" for price
    using assms by (auto simp: over_price_ceiling_def)
  have r3: "corridor_loop ?oc ?dc 5 mp ms 70 [(''Ikoyi'', example_ikoyi)]
      = Inr (if ms \<le> 92 then [corridor_entry ''Ikoyi'' example_ikoyi d] else [])"
    unfolding corridor_loop_round [OF e d] by (simp add: nc fi)
  have r2: "corridor_loop ?oc ?dc 5 mp ms 70
        [(''Lekki Phase 1'', example_lekki), (''Ikoyi'', example_ikoyi)]
      = Inr ((if ms \<le> 80 then [corridor_entry ''Lekki Phase 1'' example_lekki 0] else [])
              @ (if ms \<le> 92 then [corridor_entry ''Ikoyi'' example_ikoyi d] else []))"
    unfolding corridor_loop_round [OF o calculate_distance_same] by (simp add: nc fl r3 del: corridor_loop.simps)
  have r1: "corridor_loop ?oc ?dc 5 mp ms 70 example_zones
      = corridor_loop ?oc ?dc 5 mp ms 70
        [(''Lekki Phase 1'', example_lekki), (''Ikoyi'', example_ikoyi)]"
    unfolding example_zones_def corridor_loop_round [OF b da] by (simp add: fa del: corridor_loop.simps)
  show ?thesis using d0 r1 r2 by auto
qed

lemma example_search:
  assumes "mp = None \<or> mp = Some 0"
  shows "\<exists>r. search_route_corridor no_geocode example_route_details example_zones
            ''Lekki Phase 1'' ''Ikoyi'' 5 mp ms 70 = Inr (CorridorOK r)
     \<and> map cp_zone_name (properties r)
         = (if ms \<le> 80 then [''Lekki Phase 1''] else []) @ (if ms \<le> 92 then [''Ikoyi''] else [])"
proof -
  obtain d where d0: "0 \<le> d" and loop:
    "corridor_loop (coord_lat example_lekki, coord_lng example_lekki)
         (coord_lat example_ikoyi, coord_lng example_ikoyi) 5 mp ms 70 example_zones
       = Inr ((if ms \<le> 80 then [corridor_entry ''Lekki Phase 1'' example_lekki 0] else [])
              @ (if ms \<le> 92 then [corridor_entry ''Ikoyi'' example_ikoyi d] else []))"
    using example_loop [OF assms] by blast
  have g1: "get_coordinates no_geocode ''Lekki Phase 1'' example_zones
              = Some (coord_lat example_lekki, coord_lng example_lekki)"
    by (rule get_coordinates_zone) (simp add: example_zones_def)
  have g2: "get_coordinates no_geocode ''Ikoyi'' example_zones
              = Some (coord_lat example_ikoyi, coord_lng example_ikoyi)"
    by (rule get_coordinates_zone) (simp add: example_zones_def)
  have rd: "example_route_details (coord_lat example_lekki, coord_lng example_lekki)
              (coord_lat example_ikoyi, coord_lng example_ikoyi) = RouteInfoOK 12 30"
    by (simp add: example_route_details_def)
  obtain r where r: "search_route_corridor no_geocode example_route_details example_zones
            ''Lekki Phase 1'' ''Ikoyi'' 5 mp ms 70 = Inr (CorridorOK r)"
    "properties r = sort_key cp_distance_from_origin_km
        ((if ms \<le> 80 then [corridor_entry ''Lekki Phase 1'' example_lekki 0] else [])
              @ (if ms \<le> 92 then [corridor_entry ''Ikoyi'' example_ikoyi d] else []))"
    using search_route_corridor_ok [where route_details = example_route_details,
        OF g1 g2 rd loop] by blast
  have "map cp_zone_name (properties r)
         = (if ms \<le> 80 then [''Lekki Phase 1''] else []) @ (if ms \<le> 92 then [''Ikoyi''] else [])"
    using d0 by (simp add: r(2))
  with r(1) show ?thesis by blast
qed

lemma example_valid_latitudes: "\<forall>(n, z) \<in> set example_zones. \<bar>coord_lat z\<bar> \<le> 90"
  by (simp add: example_zones_def example_ajah_def example_lekki_def example_ikoyi_def)

section \<open>The endpoints of a corridor\<close>

text \<open>
  Claim C6, as amended. A corridor search does not leave its endpoints out. When origin
  and destination are entries of the database (latitudes between \<open>-90\<close> and \<open>90\<close>), the
  route is available and the width is not negative, the search returns its matches, and
  each of the two endpoints that passes the three filters is among them.
\<close>

theorem search_route_corridor_keeps_endpoints:
  assumes "map_of zones origin = Some zo" and "map_of zones destination = Some zd"
    and "\<forall>(n, z) \<in> set zones. \<bar>coord_lat z\<bar> \<le> 90"
    and "route_details (coord_lat zo, coord_lng zo) (coord_lat zd, coord_lng zd)
           = RouteInfoOK km mins"
    and "0 \<le> w"
  shows "\<exists>names.
      matched_zone_names (search_route_corridor geocode route_details zones origin
          destination w mp ms mf) = Some names
    \<and> (\<not> over_price_ceiling mp (avg_price_per_sqm (zone_market_data zo))
         \<and> of_int ms \<le> security_score zo \<and> flood_risk_score zo \<le> of_int mf
        \<longrightarrow> origin \<in> set names)
    \<and> (\<not> over_price_ceiling mp (avg_price_per_sqm (zone_market_data zd))
         \<and> of_int ms \<le> security_score zd \<and> flood_risk_score zd \<le> of_int mf
        \<longrightarrow> destination \<in> set names)"
proof -
  let ?oc = "(coord_lat zo, coord_lng zo)"
  let ?dc = "(coord_lat zd, coord_lng zd)"
  have mo: "(origin, zo) \<in> set zones" and md: "(destination, zd) \<in> set zones"
    using assms(1,2) by (auto dest: map_of_SomeD)
  have h1: "\<bar>fst ?oc\<bar> \<le> 90" and h2: "\<bar>fst ?dc\<bar> \<le> 90"
    using assms(3) mo md by auto
  obtain found where loop: "corridor_loop ?oc ?dc w mp ms mf zones = Inr found"
    using corridor_loop_total [OF h1 h2 assms(3)] by blast
  obtain r where r: "search_route_corridor geocode route_details zones origin
          destination w mp ms mf = Inr (CorridorOK r)"
    "properties r = sort_key cp_distance_from_origin_km found"
    using search_route_corridor_ok [where route_details = route_details,
        OF get_coordinates_zone [OF assms(1)] get_coordinates_zone [OF assms(2)] assms(4) loop]
    by blast
  have names: "matched_zone_names (search_route_corridor geocode route_details zones origin
          destination w mp ms mf) = Some (map cp_zone_name (properties r))"
    by (simp add: matched_zone_names_def r(1))
  have set_names: "set (map cp_zone_name (properties r)) = cp_zone_name ` set found"
    by (simp add: r(2))
  have ao: "is_along_route ?oc ?dc ?oc w = Inr True"
    using is_along_route_at_origin [OF h1 h2, of w] assms(5) by simp
  have ad: "is_along_route ?oc ?dc ?dc w = Inr True"
    using is_along_route_at_destination [OF h1 h2, of w] assms(5) by simp
  have "origin \<in> set (map cp_zone_name (properties r))"
    if "\<not> over_price_ceiling mp (avg_price_per_sqm (zone_market_data zo))
         \<and> of_int ms \<le> security_score zo \<and> flood_risk_score zo \<le> of_int mf"
    unfolding set_names using that corridor_loop_keeps [OF loop mo ao] by blast
  moreover have "destination \<in> set (map cp_zone_name (properties r))"
    if "\<not> over_price_ceiling mp (avg_price_per_sqm (zone_market_data zd))
         \<and> of_int ms \<le> security_score zd \<and> flood_risk_score zd \<le> of_int mf"
    unfolding set_names using that corridor_loop_keeps [OF loop md ad] by blast
  ultimately show ?thesis using names by blast
qed

theorem search_route_corridor_keeps_endpoints_witness:
  "map_of example_zones ''Lekki Phase 1'' = Some example_lekki
   \<and> map_of example_zones ''Ikoyi'' = Some example_ikoyi
   \<and> \<bar>coord_lat example_ajah\<bar> \<le> 90 \<and> \<bar>coord_lat example_lekki\<bar> \<le> 90
   \<and> \<bar>coord_lat example_ikoyi\<bar> \<le> 90
   \<and> example_route_details (coord_lat example_lekki, coord_lng example_lekki)
        (coord_lat example_ikoyi, coord_lng example_ikoyi) = RouteInfoOK 12 30
   \<and> (0 :: real) \<le> 5
   \<and> (\<exists>names. matched_zone_names (search_route_corridor no_geocode example_route_details
          example_zones ''Lekki Phase 1'' ''Ikoyi'' 5 None 50 70) = Some names
        \<and> ''Lekki Phase 1'' \<in> set names \<and> ''Ikoyi'' \<in> set names)"
proof -
  have a: "map_of example_zones ''Lekki Phase 1'' = Some example_lekki"
    and b: "map_of example_zones ''Ikoyi'' = Some example_ikoyi"
    by (simp_all add: example_zones_def)
  have c: "example_route_details (coord_lat example_lekki, coord_lng example_lekki)
        (coord_lat example_ikoyi, coord_lng example_ikoyi) = RouteInfoOK 12 30"
    by (simp add: example_route_details_def)
  have d: "(0 :: real) \<le> 5" by simp
  have f: "\<not> over_price_ceiling None (avg_price_per_sqm (zone_market_data example_lekki))
         \<and> of_int 50 \<le> security_score example_lekki
         \<and> flood_risk_score example_lekki \<le> of_int 70"
    "\<not> over_price_ceiling None (avg_price_per_sqm (zone_market_data example_ikoyi))
         \<and> of_int 50 \<le> security_score example_ikoyi
         \<and> flood_risk_score example_ikoyi \<le> of_int 70"
    by (simp_all add: over_price_ceiling_def example_lekki_def example_ikoyi_def)
  have g: "\<bar>coord_lat example_ajah\<bar> \<le> 90" "\<bar>coord_lat example_lekki\<bar> \<le> 90"
    "\<bar>coord_lat example_ikoyi\<bar> \<le> 90"
    by (simp_all add: example_ajah_def example_lekki_def example_ikoyi_def)
  show ?thesis
    using a b c d f g
      search_route_corridor_keeps_endpoints [where route_details = example_route_details,
        OF a b example_valid_latitudes c d, of no_geocode None 50 70]
    by blast
qed

text \<open>
  The search from Lekki Phase 1 to Ikoyi over the sample database, with the default
  width and filters, lists both endpoints as matches, the origin first.
\<close>

theorem search_route_corridor_endpoints_counterexample:
  "matched_zone_names (search_route_corridor no_geocode example_route_details example_zones
      ''Lekki Phase 1'' ''Ikoyi'' 5 None 50 70) = Some [''Lekki Phase 1'', ''Ikoyi'']"
  using example_search [of None 50] by (auto simp: matched_zone_names_def)

section \<open>The security floor\<close>

text \<open>
  Claim C7. With origin, destination, width and the other filters fixed and
  \<open>s1 \<le> s2\<close>: when the search with floor \<open>s1\<close> returns matches, the search with floor
  \<open>s2\<close> returns those of them whose security score is at least \<open>s2\<close>, in the same
  order, so its matches are a subset and its count is not larger; when the search with
  \<open>s1\<close> ends otherwise (no coordinates, no route, an exception), so does the other.
\<close>

theorem search_route_corridor_security_monotone:
  assumes "s1 \<le> s2"
  shows "case search_route_corridor geocode route_details zones origin destination w mp s1 mf of
           Inr (CorridorOK r1) \<Rightarrow>
             (\<exists>r2. search_route_corridor geocode route_details zones origin destination
                      w mp s2 mf = Inr (CorridorOK r2)
                \<and> properties r2
                    = filter (\<lambda>p. of_int s2 \<le> cp_security_score p) (properties r1)
                \<and> set (properties r2) \<subseteq> set (properties r1)
                \<and> properties_found r2 \<le> properties_found r1)
         | other \<Rightarrow>
             search_route_corridor geocode route_details zones origin destination
               w mp s2 mf = other"
proof -
  let ?P = "\<lambda>p. of_int s2 \<le> cp_security_score p"
  consider
    (run) oc dc km mins where
      "\<And>ms. search_route_corridor geocode route_details zones origin destination w mp ms mf
          = map_sum id (\<lambda>found. CorridorOK
                \<lparr>route_origin = origin, route_destination = destination,
                 route_distance_km = km, route_duration_minutes = mins,
                 param_corridor_width_km = w, param_max_price_per_sqm = mp,
                 param_min_security_score = ms, param_max_flood_risk = mf,
                 properties_found = length found,
                 properties = sort_key cp_distance_from_origin_km found\<rparr>)
              (corridor_loop oc dc w mp ms mf zones)"
    | (stop) reply where
      "\<And>ms. search_route_corridor geocode route_details zones origin destination w mp ms mf
          = Inr reply" "\<And>r. reply \<noteq> CorridorOK r"
  proof (cases "get_coordinates geocode origin zones")
    case None
    then show ?thesis using stop [of CoordinatesNotFound]
      by (simp add: search_route_corridor_def)
  next
    case (Some oc)
    note oc = this
    show ?thesis
    proof (cases "get_coordinates geocode destination zones")
      case None
      then show ?thesis using stop [of CoordinatesNotFound]
        by (simp add: search_route_corridor_def oc)
    next
      case (Some dc)
      show ?thesis
      proof (cases "route_details oc dc")
        case (RouteInfoOK km mins)
        have "search_route_corridor geocode route_details zones origin destination w mp ms mf
          = map_sum id (\<lambda>found. CorridorOK
                \<lparr>route_origin = origin, route_destination = destination,
                 route_distance_km = km, route_duration_minutes = mins,
                 param_corridor_width_km = w, param_max_price_per_sqm = mp,
                 param_min_security_score = ms, param_max_flood_risk = mf,
                 properties_found = length found,
                 properties = sort_key cp_distance_from_origin_km found\<rparr>)
              (corridor_loop oc dc w mp ms mf zones)" for ms
          by (cases "corridor_loop oc dc w mp ms mf zones")
            (simp_all add: search_route_corridor_def oc Some RouteInfoOK Let_def)
        then show ?thesis by (rule run)
      next
        case RouteInfoNotFound
        then show ?thesis using stop [of "RouteFailed RouteInfoNotFound"]
          by (simp add: search_route_corridor_def oc Some)
      next
        case (RouteInfoError msg)
        then show ?thesis using stop [of "RouteFailed (RouteInfoError msg)"]
          by (simp add: search_route_corridor_def oc Some)
      qed
    qed
  qed
  then show ?thesis
  proof cases
    case run
    show ?thesis
    proof (cases "corridor_loop oc dc w mp s1 mf zones")
      case (Inl e)
      then have "corridor_loop oc dc w mp s2 mf zones = Inl e"
        by (simp add: corridor_loop_security [OF assms])
      with Inl show ?thesis by (simp add: run)
    next
      case (Inr found)
      then have l2: "corridor_loop oc dc w mp s2 mf zones = Inr (filter ?P found)"
        by (simp add: corridor_loop_security [OF assms])
      have "sort_key cp_distance_from_origin_km (filter ?P found)
              = filter ?P (sort_key cp_distance_from_origin_km found)"
        by (simp add: filter_sort)
      then show ?thesis
        by (simp add: run Inr l2)
    qed
  next
    case stop
    show ?thesis
    proof (cases reply)
      case (CorridorOK r)
      with stop(2) show ?thesis by blast
    qed (simp_all add: stop(1))
  qed
qed

theorem search_route_corridor_security_monotone_witness:
  "(50 :: int) \<le> 85
   \<and> matched_zone_names (search_route_corridor no_geocode example_route_details example_zones
        ''Lekki Phase 1'' ''Ikoyi'' 5 None 50 70) = Some [''Lekki Phase 1'', ''Ikoyi'']
   \<and> matched_zone_names (search_route_corridor no_geocode example_route_details example_zones
        ''Lekki Phase 1'' ''Ikoyi'' 5 None 85 70) = Some [''Ikoyi'']
   \<and> (\<exists>r1 r2.
         search_route_corridor no_geocode example_route_details example_zones
           ''Lekki Phase 1'' ''Ikoyi'' 5 None 50 70 = Inr (CorridorOK r1)
       \<and> search_route_corridor no_geocode example_route_details example_zones
           ''Lekki Phase 1'' ''Ikoyi'' 5 None 85 70 = Inr (CorridorOK r2)
       \<and> set (properties r2) \<subseteq> set (properties r1)
       \<and> properties_found r2 \<le> properties_found r1)"
proof -
  have le: "(50 :: int) \<le> 85" by simp
  obtain r1 where r1: "search_route_corridor no_geocode example_route_details example_zones
      ''Lekki Phase 1'' ''Ikoyi'' 5 None 50 70 = Inr (CorridorOK r1)"
    "map cp_zone_name (properties r1) = [''Lekki Phase 1'', ''Ikoyi'']"
    using example_search [of None 50] by auto
  obtain r2 where r2: "search_route_corridor no_geocode example_route_details example_zones
      ''Lekki Phase 1'' ''Ikoyi'' 5 None 85 70 = Inr (CorridorOK r2)"
    "map cp_zone_name (properties r2) = [''Ikoyi'']"
    using example_search [of None 85] by auto
  have "set (properties r2) \<subseteq> set (properties r1)
       \<and> properties_found r2 \<le> properties_found r1"
    using search_route_corridor_security_monotone [OF le, of no_geocode example_route_details
        example_zones "''Lekki Phase 1''" "''Ikoyi''" 5 None 70]
    by (simp add: r1(1) r2(1))
  then show ?thesis
    using r1 r2 by (simp add: matched_zone_names_def)
qed

section \<open>A price ceiling of zero\<close>

lemma sqm_estimate_positive: "0 < sqm_estimate bedrooms"
  by (simp add: sqm_estimate_def)

lemma py_int_small:
  assumes "\<bar>x\<bar> < 1"
  shows "py_int x = 0"
proof (cases "0 \<le> x")
  case True
  with assms have "\<lfloor>x\<rfloor> = 0" by (simp add: floor_eq_iff)
  with True show ?thesis by (simp add: py_int_def)
next
  case False
  with assms have "\<lceil>x\<rceil> = 0" by (simp add: ceiling_eq_iff)
  with False show ?thesis by (simp add: py_int_def)
qed

lemma budget_below_area:
  assumes "\<bar>budget\<bar> < sqm_estimate bedrooms"
  shows "py_int (of_int budget / of_int (sqm_estimate bedrooms)) = 0"
proof (rule py_int_small)
  have pos: "(0 :: real) < of_int (sqm_estimate bedrooms)"
    using sqm_estimate_positive [of bedrooms] by simp
  have "\<bar>of_int budget :: real\<bar> < of_int (sqm_estimate bedrooms)"
    using assms by linarith
  then show "\<bar>of_int budget / of_int (sqm_estimate bedrooms) :: real\<bar> < 1"
    using pos by (simp add: abs_divide)
qed

text \<open>
  Claim C9. A ceiling of 0 is no ceiling: no price is over it, and the search with
  \<open>max_price_per_sqm = 0\<close> ends as the search without a ceiling does, with the same
  matches. The budget search with a budget below the estimated area (in absolute value)
  passes the truncated quotient 0 and is that search.
\<close>

theorem zero_price_ceiling_disables_filter:
  "\<not> over_price_ceiling (Some 0) price
   \<and> (case search_route_corridor geocode route_details zones origin destination w
             (Some 0) ms mf of
         Inr (CorridorOK r0) \<Rightarrow>
           (\<exists>rn. search_route_corridor geocode route_details zones origin destination w
                    None ms mf = Inr (CorridorOK rn)
              \<and> properties rn = properties r0)
       | other \<Rightarrow>
           search_route_corridor geocode route_details zones origin destination w
             None ms mf = other)
   \<and> (\<bar>budget\<bar> < sqm_estimate bedrooms \<longrightarrow>
        search_by_budget_along_route geocode route_details zones origin destination
            budget bedrooms w
          = search_route_corridor geocode route_details zones origin destination w
              (Some 0) 50 70)"
proof (intro conjI impI)
  show "\<not> over_price_ceiling (Some 0) price"
    by (simp add: over_price_ceiling_def)
  show "case search_route_corridor geocode route_details zones origin destination w
             (Some 0) ms mf of
         Inr (CorridorOK r0) \<Rightarrow>
           (\<exists>rn. search_route_corridor geocode route_details zones origin destination w
                    None ms mf = Inr (CorridorOK rn)
              \<and> properties rn = properties r0)
       | other \<Rightarrow>
           search_route_corridor geocode route_details zones origin destination w
             None ms mf = other"
    by (simp add: search_route_corridor_def corridor_loop_zero_ceiling Let_def
        split: option.splits route_info.splits sum.splits)
  show "search_by_budget_along_route geocode route_details zones origin destination
            budget bedrooms w
          = search_route_corridor geocode route_details zones origin destination w
              (Some 0) 50 70"
    if "\<bar>budget\<bar> < sqm_estimate bedrooms"
    by (simp add: search_by_budget_along_route_def Let_def budget_below_area [OF that])
qed

theorem zero_price_ceiling_disables_filter_witness:
  "\<bar>100 :: int\<bar> < sqm_estimate 3
   \<and> matched_zone_names (search_by_budget_along_route no_geocode example_route_details
        example_zones ''Lekki Phase 1'' ''Ikoyi'' 100 3 5) = Some [''Lekki Phase 1'', ''Ikoyi'']
   \<and> avg_price_per_sqm (zone_market_data example_lekki) > 0"
proof -
  have h: "\<bar>100 :: int\<bar> < sqm_estimate 3" by (simp add: sqm_estimate_def)
  have "search_by_budget_along_route no_geocode example_route_details
        example_zones ''Lekki Phase 1'' ''Ikoyi'' 100 3 5
      = search_route_corridor no_geocode example_route_details
        example_zones ''Lekki Phase 1'' ''Ikoyi'' 5 (Some 0) 50 70"
    using zero_price_ceiling_disables_filter [of 0 no_geocode example_route_details
        example_zones "''Lekki Phase 1''" "''Ikoyi''" 5 50 70 100 3] h by blast
  then show ?thesis
    using h example_search [of "Some 0" 50]
    by (auto simp: matched_zone_names_def example_lekki_def)
qed

section \<open>The route smart score\<close>

lemma analyze_property_ajah:
  "analyze_property example_zones ''Ajah'' price property_type =
     Inr (Analysis
       \<lparr>an_location = ''Ajah, Lagos'', an_property_type = property_type,
        an_price_offered = price, an_smart_score = 44.5, an_overall_risk = HIGH,
        an_price_analysis =
          \<lparr>status = (if price < 22500000 then UNDERPRICED
                     else if price \<le> 42500000 then FAIR
                     else if price \<le> 60000000 then ELEVATED else OVERPRICED),
           market_range = price_range (zone_market_data example_ajah),
           offered_price = price, market_median = Some 42500000\<rparr>,
        an_total_hidden = 850000\<rparr>)"
proof -
  have k: "map_of example_zones ''Ajah'' = Some example_ajah"
    by (simp add: example_zones_def)
  have n: "normalize_location example_zones ''Ajah'' = ''Ajah''"
    by (simp add: normalize_location_def k)
  have sc: "flood_risk_score example_ajah = 75" "security_score example_ajah = 55"
    "infrastructure_score example_ajah = 60" "zone_location example_ajah = ''Ajah, Lagos''"
    "calculate_total_hidden (zone_hidden_costs example_ajah) = 850000"
    by (simp_all add: example_ajah_def calculate_total_hidden_def)
  have "(445 / 10 :: real) * 10 = of_int 445" by simp
  then have rd: "py_round_ndigits (445 / 10) 1 = 445 / 10"
    by (rule py_round_ndigits_tenths)
  have ev: "evaluate_price example_zones price avg ''Ajah'' =
      Inr \<lparr>status = (if price < 22500000 then UNDERPRICED
                     else if price \<le> 42500000 then FAIR
                     else if price \<le> 60000000 then ELEVATED else OVERPRICED),
           market_range = price_range (zone_market_data example_ajah),
           offered_price = price, market_median = Some 42500000\<rparr>" for avg
    by (simp add: evaluate_price_def k example_ajah_range py_float_examples Let_def)
  have s: "(100 - 75) * 0.4 + 55 * 0.3 + 60 * 0.3 = (445 / 10 :: real)" by simp
  show ?thesis
    unfolding analyze_property_def Let_def n k option.case sc s ev sum.case rd
    by simp
qed

section \<open>Arguments that are not positive\<close>

lemma analyze_property_total:
  assumes "map_of zones_data (normalize_location zones_data location) = Some zone"
  shows "\<exists>a. analyze_property zones_data location price property_type = Inr (Analysis a)
           \<and> an_price_offered a = price"
proof -
  obtain v where "evaluate_price zones_data price (avg_price_per_sqm (zone_market_data zone))
      (normalize_location zones_data location) = Inr v"
    using evaluate_price_total [OF assms] by blast
  then show ?thesis
    using assms by (simp add: analyze_property_def Let_def)
qed

lemma corridor_loop_negative_width:
  assumes "\<bar>fst oc\<bar> \<le> 90" and "\<bar>fst dc\<bar> \<le> 90"
    and "\<forall>(n, z) \<in> set zs. \<bar>coord_lat z\<bar> \<le> 90" and "w < 0"
  shows "corridor_loop oc dc w mp ms mf zs = Inr []"
  using assms(3)
proof (induction zs)
  case Nil
  show ?case by simp
next
  case (Cons nz zs)
  obtain n z where nz: "nz = (n, z)" by (cases nz)
  from Cons.prems nz have lat: "\<bar>fst (coord_lat z, coord_lng z)\<bar> \<le> 90" by simp
  from Cons have rest: "corridor_loop oc dc w mp ms mf zs = Inr []" by auto
  obtain d1 d2 d3 where d: "calculate_distance oc (coord_lat z, coord_lng z) = Inr d1"
    "calculate_distance (coord_lat z, coord_lng z) dc = Inr d2"
    "calculate_distance oc dc = Inr d3"
    using calculate_distance_total [OF assms(1) lat] calculate_distance_total [OF lat assms(2)]
      calculate_distance_total [OF assms(1) assms(2)] by blast
  have "is_along_route oc dc (coord_lat z, coord_lng z) w
          = Inr (\<bar>fl (fl (d1 + d2) - d3)\<bar> \<le> w)"
    by (rule is_along_route_value [OF d])
  moreover have "\<not> \<bar>fl (fl (d1 + d2) - d3)\<bar> \<le> w" using assms(4) by linarith
  ultimately have b: "is_along_route oc dc (coord_lat z, coord_lng z) w = Inr False"
    by simp
  show ?case
    unfolding nz corridor_loop_round [OF b d(1)] by (simp add: rest)
qed

text \<open>
  Claim C5, as amended. No operation validates its arguments and none fails with an
  invalid-input error. For a location of the database \<open>analyze_property\<close> returns its
  analysis for every price; \<open>calculate_roi\<close> returns its reply for every price and
  holding period other than 0, negative ones too, and raises \<open>ZeroDivisionError\<close> in
  one of its two divisions when the price or the holding period is 0; a corridor search
  between two zones of the database with an available route returns its matches for
  every width, none at all for a negative width.
\<close>

theorem operations_accept_non_positive_arguments:
  assumes "map_of zones (normalize_location zones location) = Some zone"
  shows "(\<exists>a. analyze_property zones location price property_type = Inr (Analysis a)
             \<and> an_price_offered a = price)
    \<and> (price \<noteq> 0 \<and> holding_period \<noteq> 0 \<longrightarrow>
          (\<exists>r. calculate_roi zones price location holding_period = Inr (Roi r)))
    \<and> (price = 0 \<or> holding_period = 0 \<longrightarrow>
          calculate_roi zones price location holding_period = Inl ZeroDivisionError)
    \<and> (map_of zones origin = Some zo \<and> map_of zones destination = Some zd
         \<and> (\<forall>(n, z) \<in> set zones. \<bar>coord_lat z\<bar> \<le> 90)
         \<and> route_details (coord_lat zo, coord_lng zo) (coord_lat zd, coord_lng zd)
             = RouteInfoOK km mins
        \<longrightarrow> (\<exists>r. search_route_corridor geocode route_details zones origin destination
                      w mp ms mf = Inr (CorridorOK r)
               \<and> param_corridor_width_km r = w
               \<and> (w < 0 \<longrightarrow> properties r = [])))"
proof (intro conjI impI)
  show "\<exists>a. analyze_property zones location price property_type = Inr (Analysis a)
             \<and> an_price_offered a = price"
    by (rule analyze_property_total [OF assms])
  show "\<exists>r. calculate_roi zones price location holding_period = Inr (Roi r)"
    if "price \<noteq> 0 \<and> holding_period \<noteq> 0"
    using calculate_roi_value [OF assms, of price holding_period] that by blast
  show "calculate_roi zones price location holding_period = Inl ZeroDivisionError"
    if "price = 0 \<or> holding_period = 0"
    by (rule calculate_roi_zero_division [OF assms that])
  show "\<exists>r. search_route_corridor geocode route_details zones origin destination
                      w mp ms mf = Inr (CorridorOK r)
               \<and> param_corridor_width_km r = w
               \<and> (w < 0 \<longrightarrow> properties r = [])"
    if h: "map_of zones origin = Some zo \<and> map_of zones destination = Some zd
         \<and> (\<forall>(n, z) \<in> set zones. \<bar>coord_lat z\<bar> \<le> 90)
         \<and> route_details (coord_lat zo, coord_lng zo) (coord_lat zd, coord_lng zd)
             = RouteInfoOK km mins"
  proof -
    let ?oc = "(coord_lat zo, coord_lng zo)"
    let ?dc = "(coord_lat zd, coord_lng zd)"
    from h have o: "map_of zones origin = Some zo" and d: "map_of zones destination = Some zd"
      and v: "\<forall>(n, z) \<in> set zones. \<bar>coord_lat z\<bar> \<le> 90"
      and rd: "route_details ?oc ?dc = RouteInfoOK km mins"
      by simp_all
    have "(origin, zo) \<in> set zones" and "(destination, zd) \<in> set zones"
      using o d by (auto dest: map_of_SomeD)
    with v have h1: "\<bar>fst ?oc\<bar> \<le> 90" and h2: "\<bar>fst ?dc\<bar> \<le> 90" by auto
    obtain found where loop: "corridor_loop ?oc ?dc w mp ms mf zones = Inr found"
      using corridor_loop_total [OF h1 h2 v] by blast
    have neg: "found = []" if "w < 0"
      using corridor_loop_negative_width [OF h1 h2 v that, of mp ms mf] loop by simp
    obtain r where r: "search_route_corridor geocode route_details zones origin destination
          w mp ms mf = Inr (CorridorOK r)"
      "properties r = sort_key cp_distance_from_origin_km found"
      "param_corridor_width_km r = w"
      using search_route_corridor_ok [where route_details = route_details,
          OF get_coordinates_zone [OF o] get_coordinates_zone [OF d] rd loop]
      by blast
    show ?thesis using r neg by auto
  qed
qed

theorem operations_accept_non_positive_arguments_witness:
  "map_of example_zones (normalize_location example_zones ''Ajah'') = Some example_ajah
   \<and> (\<exists>a. analyze_property example_zones ''Ajah'' (- 45000000) ''3-bedroom''
            = Inr (Analysis a))
   \<and> (\<exists>r. calculate_roi example_zones (- 45000000) ''Ajah'' (- 5) = Inr (Roi r))
   \<and> calculate_roi example_zones 0 ''Ajah'' 5 = Inl ZeroDivisionError
   \<and> (\<exists>r. search_route_corridor no_geocode example_route_details example_zones
            ''Lekki Phase 1'' ''Ikoyi'' (- 1) None 50 70 = Inr (CorridorOK r)
          \<and> param_corridor_width_km r = - 1 \<and> properties r = [])"
proof -
  have h: "map_of example_zones (normalize_location example_zones ''Ajah'') = Some example_ajah"
    by (simp add: example_zones_def normalize_location_def)
  have a: "map_of example_zones ''Lekki Phase 1'' = Some example_lekki"
    and b: "map_of example_zones ''Ikoyi'' = Some example_ikoyi"
    by (simp_all add: example_zones_def)
  have c: "example_route_details (coord_lat example_lekki, coord_lng example_lekki)
        (coord_lat example_ikoyi, coord_lng example_ikoyi) = RouteInfoOK 12 30"
    by (simp add: example_route_details_def)
  note t1 = operations_accept_non_positive_arguments [OF h,
      where price = "- 45000000" and holding_period = "- 5" and property_type = "''3-bedroom''"
        and origin = "''Lekki Phase 1''" and destination = "''Ikoyi''"
        and zo = example_lekki and zd = example_ikoyi
        and route_details = example_route_details and geocode = no_geocode
        and km = 12 and mins = 30 and w = "- 1" and mp = None and ms = 50 and mf = 70]
  note t2 = operations_accept_non_positive_arguments [OF h,
      where price = 0 and holding_period = 5]
  have s1: "\<exists>a. analyze_property example_zones ''Ajah'' (- 45000000) ''3-bedroom''
            = Inr (Analysis a)"
    using t1 by blast
  have s2: "\<exists>r. calculate_roi example_zones (- 45000000) ''Ajah'' (- 5) = Inr (Roi r)"
    using t1 by simp
  have s3: "calculate_roi example_zones 0 ''Ajah'' 5 = Inl ZeroDivisionError"
    using t2 by simp
  have s4: "\<exists>r. search_route_corridor no_geocode example_route_details example_zones
            ''Lekki Phase 1'' ''Ikoyi'' (- 1) None 50 70 = Inr (CorridorOK r)
          \<and> param_corridor_width_km r = - 1 \<and> properties r = []"
    using t1 a b c example_valid_latitudes by simp
  show ?thesis using h s1 s2 s3 s4 by blast
qed

text \<open>
  A negative price is analysed like any other: the reply for Ajah at minus 45 million
  is an analysis, with the price verdict UNDERPRICED.
\<close>

theorem analyze_property_negative_price_counterexample:
  "analyze_property example_zones ''Ajah'' (- 45000000) ''3-bedroom'' =
     Inr (Analysis
       \<lparr>an_location = ''Ajah, Lagos'', an_property_type = ''3-bedroom'',
        an_price_offered = - 45000000, an_smart_score = 44.5, an_overall_risk = HIGH,
        an_price_analysis =
          \<lparr>status = UNDERPRICED,
           market_range = price_range (zone_market_data example_ajah),
           offered_price = - 45000000, market_median = Some 42500000\<rparr>,
        an_total_hidden = 850000\<rparr>)"
  using analyze_property_ajah [of "- 45000000" "''3-bedroom''"] by simp

section \<open>The float sum of the route smart score\<close>



























section \<open>The smart score and the risk tier\<close>




section \<open>The great-circle angle\<close>







section \<open>Three points 16 m apart on one meridian\<close>














section \<open>The corridor test and the detour\<close>




end
